theory Spec2Isabelle
  imports Main
begin

section \<open>Exceptions\<close>

text \<open>
  The heuristic \<^verbatim>\<open>heuristics/dbic_bids.py\<close> is Python 2 code (\<^verbatim>\<open>str.translate(None, chars)\<close>,
  \<^verbatim>\<open>filter\<close> returning a list).  Every exception it can raise is a value of the type below;
  a function that may raise returns \<open>error + 'a\<close>, with \<open>Inl\<close> for the exception.
\<close>

datatype error =
    AssertionError
  | IndexError
  | KeyError
  | ValueError
  | RuntimeError
  | NotImplementedError

section \<open>Python string operations\<close>

text \<open>\<^verbatim>\<open>s.startswith(p)\<close>\<close>

fun startswith :: "string \<Rightarrow> string \<Rightarrow> bool" where
  "startswith s [] = True"
| "startswith [] (p # ps) = False"
| "startswith (c # cs) (p # ps) = (c = p \<and> startswith cs ps)"

text \<open>\<^verbatim>\<open>p in s\<close> for strings: \<open>p\<close> occurs in \<open>s\<close> as a contiguous substring.\<close>

fun str_in :: "string \<Rightarrow> string \<Rightarrow> bool" where
  "str_in p [] = (p = [])"
| "str_in p (c # cs) = (startswith (c # cs) p \<or> str_in p cs)"

text \<open>\<^verbatim>\<open>s.split(c)\<close> for a one-character separator: every occurrence splits.\<close>

fun str_split :: "char \<Rightarrow> string \<Rightarrow> string list" where
  "str_split sep [] = [[]]"
| "str_split sep (c # cs) =
     (if c = sep then [] # str_split sep cs
      else (case str_split sep cs of
              w # ws \<Rightarrow> (c # w) # ws
            | [] \<Rightarrow> [[c]]))"

text \<open>\<^verbatim>\<open>s.split(sep, 1)\<close>: only the leftmost occurrence of \<open>sep\<close> splits, so the result
  has one or two elements.\<close>

fun str_split1 :: "string \<Rightarrow> string \<Rightarrow> string list" where
  "str_split1 sep [] = [[]]"
| "str_split1 sep (c # cs) =
     (if startswith (c # cs) sep then [[], drop (length sep) (c # cs)]
      else (case str_split1 sep cs of
              a # r \<Rightarrow> (c # a) # r
            | [] \<Rightarrow> [[c]]))"

text \<open>\<^verbatim>\<open>sep.join(xs)\<close>\<close>

fun str_join :: "string \<Rightarrow> string list \<Rightarrow> string" where
  "str_join sep [] = []"
| "str_join sep [x] = x"
| "str_join sep (x # y # ys) = x @ sep @ str_join sep (y # ys)"

text \<open>\<^verbatim>\<open>s.replace(a, b)\<close> for one-character \<open>a\<close> and \<open>b\<close>.\<close>

definition str_replace :: "char \<Rightarrow> char \<Rightarrow> string \<Rightarrow> string" where
  "str_replace a b s = map (\<lambda>c. if c = a then b else c) s"

text \<open>\<^verbatim>\<open>str(value)\<close> for a value that is a string or \<^verbatim>\<open>None\<close>.\<close>

definition py_str :: "string option \<Rightarrow> string" where
  "py_str value = (case value of None \<Rightarrow> ''None'' | Some v \<Rightarrow> v)"

section \<open>The sanitizer\<close>

text \<open>\<^verbatim>\<open>sanitize_str\<close>: \<^verbatim>\<open>value.translate(None, '#!@$%^&.,:;_-')\<close> deletes the listed characters.\<close>

definition sanitize_str :: "string \<Rightarrow> string" where
  "sanitize_str value = filter (\<lambda>c. c \<notin> set ''#!@$%^&.,:;_-'') value"

section \<open>The protocol-name parser\<close>

text \<open>
  \<^verbatim>\<open>parse_dbic_protocol_name\<close> returns a dict \<^verbatim>\<open>regd\<close>.  Its keys are only ever the literals
  \<^verbatim>\<open>seqtype\<close>, \<^verbatim>\<open>seqtype_label\<close>, \<^verbatim>\<open>session\<close>, \<^verbatim>\<open>run\<close>, \<^verbatim>\<open>task\<close>, \<^verbatim>\<open>acq\<close> and \<^verbatim>\<open>bids\<close>, so the
  dict is a record with one optional field per key: a key is present exactly when its
  field is \<open>Some\<close>, and equality of records is equality of dicts.  The empty dict \<^verbatim>\<open>{}\<close> is
  the record with every field \<open>None\<close>.
\<close>

record regd =
  seqtype :: "string option"
  seqtype_label :: "string option"
  session :: "string option"
  run :: "string option"
  task :: "string option"
  acq :: "string option"
  bids :: "string option"

definition empty_regd :: regd where
  "empty_regd = \<lparr>seqtype = None, seqtype_label = None, session = None, run = None,
                   task = None, acq = None, bids = None\<rparr>"

text \<open>\<^verbatim>\<open>regd[key] = v\<close> for the keys the parser's loop can store under.\<close>

definition regd_store :: "string \<Rightarrow> string \<Rightarrow> regd \<Rightarrow> regd" where
  "regd_store key v r =
     (if key = ''session'' then r\<lparr>session := Some v\<rparr>
      else if key = ''run'' then r\<lparr>run := Some v\<rparr>
      else if key = ''task'' then r\<lparr>task := Some v\<rparr>
      else if key = ''acq'' then r\<lparr>acq := Some v\<rparr>
      else r)"

text \<open>The inner function \<^verbatim>\<open>split2\<close>: split on the first hyphen if there is one, else the
  second component is \<^verbatim>\<open>None\<close>.\<close>

definition split2 :: "string \<Rightarrow> string \<times> string option" where
  "split2 s =
     (if CHR ''-'' \<in> set s then
        (case str_split1 ''-'' s of
           [k, v] \<Rightarrow> (k, Some v)
         | _ \<Rightarrow> (s, None))
      else (s, None))"

text \<open>
  The body of the loop over \<^verbatim>\<open>split[1:]\<close> (lines 496-510), on the pair of \<^verbatim>\<open>regd\<close> and
  \<^verbatim>\<open>bids_leftovers\<close>.  \<^verbatim>\<open>key[-1]\<close> is evaluated only when \<^verbatim>\<open>value is None\<close>, and raises
  \<^verbatim>\<open>IndexError\<close> on the empty string.
\<close>

definition parse_item :: "string \<Rightarrow> regd \<times> string list \<Rightarrow> error + regd \<times> string list" where
  "parse_item s st =
     (case st of (regd, bids_leftovers) \<Rightarrow>
      (case split2 s of (key0, value0) \<Rightarrow>
        if value0 = None \<and> key0 = [] then Inl IndexError
        else
          let (key, value) =
                (if value0 = None \<and> last key0 \<in> set ''+=''
                 then (butlast key0, Some [last key0])
                 else (key0, value0));
              value = str_replace CHR ''-'' CHR ''X'' (str_replace CHR ''_'' CHR ''X'' (py_str value))
          in if key \<in> set [''ses'', ''run'', ''task'', ''acq'']
             then Inr (regd_store (if key = ''ses'' then ''session'' else key)
                                  (sanitize_str value) regd,
                       bids_leftovers)
             else Inr (regd, bids_leftovers @ [s])))"

fun parse_items :: "string list \<Rightarrow> regd \<times> string list \<Rightarrow> error + regd \<times> string list" where
  "parse_items [] st = Inr st"
| "parse_items (s # ss) st =
     (case parse_item s st of
        Inl e \<Rightarrow> Inl e
      | Inr st' \<Rightarrow> parse_items ss st')"

definition seqtypes :: "string list" where
  "seqtypes = [''anat'', ''func'', ''dwi'', ''behav'', ''fmap'']"

text \<open>
  \<^verbatim>\<open>parse_dbic_protocol_name\<close>, in two parts.  The first (lines 459-474) computes the token
  list \<^verbatim>\<open>split\<close>: the name is cut at the first double underscore and split on underscores,
  a first token \<^verbatim>\<open>scout\<close> becomes \<^verbatim>\<open>anat-scout\<close>, and the first token is dropped when what
  stands before its hyphen is \<^verbatim>\<open>bids\<close>.  The flag \<^verbatim>\<open>bids\<close> of the source only guards a
  message to the logger; it is \<open>bids_flag\<close> below.  The two uses of index 0 here are on
  results of \<^verbatim>\<open>split\<close>, which are never empty.
\<close>

definition protocol_tokens :: "string \<Rightarrow> string list" where
  "protocol_tokens name =
     (let protocol_name = hd (str_split1 ''__'' name);
          split0 = str_split CHR ''_'' protocol_name;
          prefix0 = hd split0;
          (prefix1, split1) =
             (if prefix0 = ''scout'' then (''anat-scout'', ''anat-scout'' # tl split0)
              else (prefix0, split0));
          prefix2 =
             (if prefix1 \<noteq> ''bids'' \<and> CHR ''-'' \<in> set prefix1
              then hd (str_split1 ''-'' prefix1) else prefix1)
      in if prefix2 = ''bids'' then tl split1 else split1)"

text \<open>
  The second part (lines 483-525) reads the tokens.  \<^verbatim>\<open>split[0]\<close> at line 483 raises
  \<^verbatim>\<open>IndexError\<close> when the list is empty.
\<close>

definition parse_split :: "string list \<Rightarrow> error + regd" where
  "parse_split split =
     (case split of
        [] \<Rightarrow> Inl IndexError
      | first # rest \<Rightarrow>
          (case split2 first of (seqtype', seqtype_label') \<Rightarrow>
             if seqtype' \<notin> set seqtypes then Inr empty_regd
             else
               (case parse_items rest
                       (empty_regd\<lparr>seqtype := Some seqtype',
                                   seqtype_label :=
                                     (case seqtype_label' of
                                        None \<Rightarrow> None
                                      | Some l \<Rightarrow> if l = [] then None else Some l)\<rparr>,
                        []) of
                  Inl e \<Rightarrow> Inl e
                | Inr (regd, bids_leftovers) \<Rightarrow>
                    Inr (if bids_leftovers \<noteq> []
                         then regd\<lparr>bids := Some (str_join ''_'' bids_leftovers)\<rparr>
                         else regd))))"

definition parse_dbic_protocol_name :: "string \<Rightarrow> error + regd" where
  "parse_dbic_protocol_name name = parse_split (protocol_tokens name)"

text \<open>
  What the parser writes to the logger.  \<open>bids_flag\<close> is the truth of the flag \<^verbatim>\<open>bids\<close> after
  line 474: the name is tagged when its first token, cut at its hyphen unless it is \<^verbatim>\<open>bids\<close>
  itself, is \<^verbatim>\<open>bids\<close>.  The one message (lines 486-488) is a warning, logged when the name is
  tagged and the seqtype read at line 483 is not a known one, just before the empty dict is
  returned; \<open>parse_warnings\<close> is the list of the warnings of one call.
\<close>

definition bids_flag :: "string \<Rightarrow> bool" where
  "bids_flag name =
     (let protocol_name = hd (str_split1 ''__'' name);
          split0 = str_split CHR ''_'' protocol_name;
          prefix0 = hd split0;
          prefix1 = (if prefix0 = ''scout'' then ''anat-scout'' else prefix0);
          prefix2 =
             (if prefix1 \<noteq> ''bids'' \<and> CHR ''-'' \<in> set prefix1
              then hd (str_split1 ''-'' prefix1) else prefix1)
      in prefix2 = ''bids'')"

definition unknown_type_warning :: "string \<Rightarrow> string" where
  "unknown_type_warning seqtype0 =
     ''It was instructed to be BIDS sequence but unknown type '' @ seqtype0 @ '' found''"

definition parse_warnings :: "string \<Rightarrow> string list" where
  "parse_warnings name =
     (case protocol_tokens name of
        [] \<Rightarrow> []
      | first # rest \<Rightarrow>
          (case split2 first of (seqtype', seqtype_label') \<Rightarrow>
             if seqtype' \<notin> set seqtypes \<and> bids_flag name
             then [unknown_type_warning seqtype'] else []))"

text \<open>
  What the loop body does with a token depends on the key it reads in it: \<open>item_slot\<close> is
  that key when it is one of the four recognized ones, and the empty string for a token
  that goes to the leftovers; \<open>item_value\<close> is the value stored for a recognized key.
\<close>

definition item_key :: "string \<Rightarrow> string" where
  "item_key s =
     (case split2 s of (key0, value0) \<Rightarrow>
        if value0 = None \<and> key0 \<noteq> [] \<and> last key0 \<in> set ''+='' then butlast key0 else key0)"

definition item_slot :: "string \<Rightarrow> string" where
  "item_slot s = (if item_key s \<in> set [''ses'', ''run'', ''task'', ''acq''] then item_key s else [])"

definition item_value :: "string \<Rightarrow> string" where
  "item_value s =
     (case split2 s of (key0, value0) \<Rightarrow>
        sanitize_str (str_replace CHR ''-'' CHR ''X'' (str_replace CHR ''_'' CHR ''X''
          (py_str (if value0 = None \<and> key0 \<noteq> [] \<and> last key0 \<in> set ''+=''
                   then Some [last key0] else value0)))))"

text \<open>The value that a run of the loop leaves under the key \<open>k\<close>: that of the last token
  with this key, and the value \<open>old\<close> from before the loop when there is none.\<close>

definition slot_value :: "string \<Rightarrow> string list \<Rightarrow> string option \<Rightarrow> string option" where
  "slot_value k ts old =
     (case filter (\<lambda>s. item_slot s = k) ts of
        [] \<Rightarrow> old
      | x # xs \<Rightarrow> Some (item_value (last (x # xs))))"

section \<open>Numbers in strings\<close>

text \<open>\<^verbatim>\<open>s.isdigit()\<close> on a Python 2 byte string: not empty, and every character is one of
  \<^verbatim>\<open>0\<close> to \<^verbatim>\<open>9\<close>.\<close>

definition is_digit :: "char \<Rightarrow> bool" where
  "is_digit c = (c \<in> set ''0123456789'')"

definition isdigit :: "string \<Rightarrow> bool" where
  "isdigit s = (s \<noteq> [] \<and> list_all is_digit s)"

text \<open>\<^verbatim>\<open>int(s)\<close> for a string of decimal digits (the source calls it only on such strings:
  after \<^verbatim>\<open>isdigit\<close>, or on the group \<^verbatim>\<open>\d+\<close> of a match).\<close>

definition digit_val :: "char \<Rightarrow> nat" where
  "digit_val c = length (takeWhile (\<lambda>d. d \<noteq> c) ''0123456789'')"

definition py_int :: "string \<Rightarrow> nat" where
  "py_int s = foldl (\<lambda>a c. 10 * a + digit_val c) 0 s"

text \<open>\<^verbatim>\<open>"%d" % n\<close> and \<^verbatim>\<open>"%0wd" % n\<close> for \<open>n \<ge> 0\<close>: the decimal digits, padded on the left with
  zeros to at least \<open>w\<close> characters.\<close>

fun str_of_nat :: "nat \<Rightarrow> string" where
  "str_of_nat n =
     (if n < 10 then [''0123456789'' ! n]
      else str_of_nat (n div 10) @ [''0123456789'' ! (n mod 10)])"

declare str_of_nat.simps [simp del]

definition fmt_0d :: "nat \<Rightarrow> nat \<Rightarrow> string" where
  "fmt_0d w n = (let d = str_of_nat n in replicate (w - length d) CHR ''0'' @ d)"

section \<open>Subject-id normalization\<close>

text \<open>\<^verbatim>\<open>s.lower()\<close> on a byte string: the letters \<^verbatim>\<open>A\<close> to \<^verbatim>\<open>Z\<close> move to \<^verbatim>\<open>a\<close> to \<^verbatim>\<open>z\<close>,
  every other character stays.\<close>

definition lower_char :: "char \<Rightarrow> char" where
  "lower_char c =
     (case map_of (zip ''ABCDEFGHIJKLMNOPQRSTUVWXYZ'' ''abcdefghijklmnopqrstuvwxyz'') c of
        None \<Rightarrow> c
      | Some l \<Rightarrow> l)"

definition lower :: "string \<Rightarrow> string" where
  "lower s = map lower_char s"

text \<open>
  \<^verbatim>\<open>re.match("sid0*(\d+)$", subjectid)\<close>, returning the group \<^verbatim>\<open>reg.groups()[0]\<close> of a match and
  \<open>None\<close> when there is none.  \<^verbatim>\<open>$\<close> matches at the end of the string and also just before a
  newline that ends it, so one final newline is set aside.  What remains has to be \<^verbatim>\<open>sid\<close>
  followed by one digit or more.  In those digits \<^verbatim>\<open>0*\<close> is greedy and takes the leading
  zeros, giving back the last one when no other digit is left for the group
  (\<open>sid_group\<close>).
\<close>

definition sid_group :: "string \<Rightarrow> string" where
  "sid_group digits =
     (let z = dropWhile (\<lambda>c. c = CHR ''0'') digits in if z = [] then ''0'' else z)"

definition sid_match :: "string \<Rightarrow> string option" where
  "sid_match subjectid =
     (let t = (if subjectid \<noteq> [] \<and> last subjectid = CHR 0x0A
               then butlast subjectid else subjectid)
      in if startswith t ''sid'' \<and> isdigit (drop 3 t)
         then Some (sid_group (drop 3 t))
         else None)"

definition fixup_subjectid :: "string \<Rightarrow> string" where
  "fixup_subjectid s =
     (let subjectid = lower s
      in case sid_match subjectid of
           None \<Rightarrow> filter (\<lambda>c. c \<notin> set ''-_'') subjectid
         | Some g \<Rightarrow> ''sid'' @ fmt_0d 6 (py_int g))"

section \<open>Series descriptors and the single-study check\<close>

text \<open>
  \<^verbatim>\<open>SeqInfo\<close> (\<^verbatim>\<open>heudiconv/utils.py\<close>) is a named tuple of 25 fields; the record keeps the
  eight that the heuristic reads.  \<^verbatim>\<open>image_type\<close> is a tuple of strings.
\<close>

record SeqInfo =
  series_id :: string
  protocol_name :: string
  is_derived :: bool
  patient_id :: string
  study_description :: string
  series_description :: string
  image_type :: "string list"
  accession_number :: string

text \<open>\<^verbatim>\<open>get_unique\<close>: the set of the attribute's values has to have exactly one element.  The
  attribute is given by its selector.\<close>

definition get_unique :: "'a list \<Rightarrow> ('a \<Rightarrow> 'b) \<Rightarrow> error + 'b" where
  "get_unique seqinfos attr =
     (case remdups (map attr seqinfos) of
        [v] \<Rightarrow> Inr v
      | _ \<Rightarrow> Inl AssertionError)"

text \<open>
  \<^verbatim>\<open>md5sum\<close> calls \<^verbatim>\<open>hashlib.md5\<close>, which is not code of the repository: the functions below
  take the digest function as their first argument \<open>md5sum\<close>, and what is proved of them
  holds for every digest function.  The digest of the one legacy study that the code
  treats apart is written in the source three times.
\<close>

definition legacy_study_hash :: string where
  "legacy_study_hash = ''9d148e2a05f782273f6343507733309d''"

section \<open>The identity resolver\<close>

text \<open>\<^verbatim>\<open>re.split('-|_', s, 1)\<close> and the like: split at the leftmost character that satisfies
  \<open>P\<close>.\<close>

fun re_split1 :: "(char \<Rightarrow> bool) \<Rightarrow> string \<Rightarrow> string list" where
  "re_split1 P [] = [[]]"
| "re_split1 P (c # cs) =
     (if P c then [[], cs]
      else (case re_split1 P cs of
              a # r \<Rightarrow> (c # a) # r
            | [] \<Rightarrow> [[c]]))"

text \<open>The list comprehension of lines 401-404: the session entry of the parsed protocol
  name of every series that is not derived; an exception of the parser ends it.\<close>

fun ses_markers_of :: "SeqInfo list \<Rightarrow> error + string option list" where
  "ses_markers_of [] = Inr []"
| "ses_markers_of (s # ss) =
     (if is_derived s then ses_markers_of ss
      else (case parse_dbic_protocol_name (protocol_name s) of
              Inl e \<Rightarrow> Inl e
            | Inr regd \<Rightarrow>
                (case ses_markers_of ss of
                   Inl e \<Rightarrow> Inl e
                 | Inr ms \<Rightarrow> Inr (session regd # ms))))"

text \<open>The warnings that the parser logs while that list is built: those of every series
  that is not derived, in order, up to the first one on which the parser raises.\<close>

fun ses_warnings_of :: "SeqInfo list \<Rightarrow> string list" where
  "ses_warnings_of [] = []"
| "ses_warnings_of (s # ss) =
     (if is_derived s then ses_warnings_of ss
      else (case parse_dbic_protocol_name (protocol_name s) of
              Inl e \<Rightarrow> []
            | Inr regd \<Rightarrow> parse_warnings (protocol_name s) @ ses_warnings_of ss))"

text \<open>\<^verbatim>\<open>filter(bool, ses_markers)\<close>, a list in Python 2: \<^verbatim>\<open>None\<close> and the empty string are
  dropped.\<close>

definition filter_bool :: "string option list \<Rightarrow> string list" where
  "filter_bool ms =
     concat (map (\<lambda>m. case m of None \<Rightarrow> [] | Some v \<Rightarrow> if v = [] then [] else [v]) ms)"

definition multi_session_warning :: string where
  "multi_session_warning =
     ''Cannot deal with multiple sessions in the same study yet! We will process until the end of the first session''"

text \<open>
  Lines 406-432: the session deduced from the markers.  The result is the list of the
  warnings logged and either the exception raised or the value of \<^verbatim>\<open>session\<close>.
  \<^verbatim>\<open>.difference('+=')\<close> and \<^verbatim>\<open>.intersection('+=')\<close> iterate over the string, that is over the two
  one-character strings \<^verbatim>\<open>+\<close> and \<^verbatim>\<open>=\<close>.
\<close>

definition deduce_session :: "string list \<Rightarrow> string list \<times> (error + string option)" where
  "deduce_session ses_markers =
     (if ses_markers = [] then ([], Inr None)
      else
        let nonsign_vals = remdups (filter (\<lambda>v. v \<notin> set [''+'', ''='']) ses_markers);
            warnings = (if length nonsign_vals > 1 then [multi_session_warning] else [])
        in if nonsign_vals \<noteq> [] then
             (if list_ex (\<lambda>v. v \<in> set [''+'', ''='']) ses_markers
              then (warnings, Inl NotImplementedError)
              else if length ses_markers \<noteq> 1 then (warnings, Inl AssertionError)
              else (warnings, Inr (Some (hd ses_markers))))
           else (warnings, Inr (Some ''001'')))"

text \<open>The dict that \<^verbatim>\<open>infotoids\<close> returns.  The result of the model is the list of the
  warnings logged, those of the parser first, and either the exception raised or that
  dict.\<close>

record ids =
  locator :: string
  ids_session :: "string option"
  subject :: string

definition infotoids ::
  "(string \<Rightarrow> string) \<Rightarrow> SeqInfo list \<Rightarrow> string \<Rightarrow> string list \<times> (error + ids)" where
  "infotoids md5sum seqinfos outdir =
     (case get_unique seqinfos study_description of
        Inl e \<Rightarrow> ([], Inl e)
      | Inr study_descr \<Rightarrow>
     (case get_unique seqinfos patient_id of
        Inl e \<Rightarrow> ([], Inl e)
      | Inr pid \<Rightarrow>
     (let study_description_hash = md5sum study_descr;
          subj = fixup_subjectid pid;
          split0 = str_split1 ''^'' study_descr;
          split = re_split1 (\<lambda>c. c \<in> set ''-_'') (hd split0) @ tl split0;
          loc = str_join ''/'' split;
          parser_warnings = ses_warnings_of seqinfos
      in case ses_markers_of seqinfos of
           Inl e \<Rightarrow> (parser_warnings, Inl e)
         | Inr ms \<Rightarrow>
             (case deduce_session (filter_bool ms) of
                (warnings, Inl e) \<Rightarrow> (parser_warnings @ warnings, Inl e)
              | (warnings, Inr session0) \<Rightarrow>
                  (parser_warnings @ warnings,
                   Inr \<lparr>locator = loc,
                        ids_session =
                          (if study_description_hash = legacy_study_hash
                           then Some ''siemens1'' else session0),
                        subject = subj\<rparr>)))))"

text \<open>A digest function with the same value \<open>h\<close> everywhere.  It stands in for \<^verbatim>\<open>md5sum\<close>
  on a batch whose study description has the digest \<open>h\<close>: within one batch the code
  applies \<^verbatim>\<open>md5sum\<close> to that one description only.\<close>

definition digest_to :: "string \<Rightarrow> string \<Rightarrow> string" where
  "digest_to h study_descr = h"

section \<open>Naming templates\<close>

text \<open>\<^verbatim>\<open>os.path.join(a, *p)\<close> of \<^verbatim>\<open>posixpath\<close>: a component that starts with a slash replaces
  what was joined so far, and a slash is put between two components unless the path so far
  is empty or ends with one.\<close>

fun posix_join :: "string \<Rightarrow> string list \<Rightarrow> string" where
  "posix_join path [] = path"
| "posix_join path (b # bs) =
     posix_join
       (if startswith b ''/'' then b
        else if path = [] \<or> last path = CHR ''/'' then path @ b
        else path @ ''/'' @ b) bs"

text \<open>A naming-template key is the triple that \<^verbatim>\<open>create_key\<close> returns: the template, the
  output types and the annotation classes.\<close>

type_synonym template_key = "string \<times> string list \<times> string list option"

definition create_key ::
  "string \<Rightarrow> string \<Rightarrow> string list \<Rightarrow> string list option \<Rightarrow> string \<Rightarrow> error + template_key" where
  "create_key subdir file_suffix outtype annotation_classes prefix =
     (if subdir = [] then Inl ValueError
      else Inr (posix_join prefix
                  [''{bids_subject_session_dir}'', subdir,
                   ''{bids_subject_session_prefix}_'' @ file_suffix],
                outtype, annotation_classes))"

section \<open>The sequence classifier\<close>

text \<open>
  The variables that the loop of \<^verbatim>\<open>infotodict\<close> carries from one series to the next.  \<^verbatim>\<open>info\<close>
  is a \<^verbatim>\<open>defaultdict(list)\<close>; it is an association list in the order in which the keys were
  first used.  \<^verbatim>\<open>current_run\<close> starts at 0 and is only ever incremented or set to the value of
  a string of digits, so it is a natural number.
\<close>

record classifier_state =
  info :: "(template_key \<times> string list) list"
  skipped :: "string list"
  skipped_unknown :: "string list"
  current_run :: nat
  run_label :: "string option"
  image_data_type :: "string option"

definition initial_state :: classifier_state where
  "initial_state = \<lparr>info = [], skipped = [], skipped_unknown = [], current_run = 0,
                      run_label = None, image_data_type = None\<rparr>"

text \<open>\<^verbatim>\<open>info[template].append(series_id)\<close>\<close>

fun info_append ::
  "template_key \<Rightarrow> string \<Rightarrow> (template_key \<times> string list) list
     \<Rightarrow> (template_key \<times> string list) list" where
  "info_append k v [] = [(k, [v])]"
| "info_append k v ((k', vs) # rest) =
     (if k' = k then (k', vs @ [v]) # rest else (k', vs) # info_append k v rest)"

text \<open>Truth of a value that is a string or \<^verbatim>\<open>None\<close>: \<^verbatim>\<open>None\<close> and the empty string are
  false.\<close>

definition truthy :: "string option \<Rightarrow> bool" where
  "truthy v = (case v of None \<Rightarrow> False | Some x \<Rightarrow> x \<noteq> [])"

text \<open>
  Lines 262-277: the default for a missing seqtype label.  For \<^verbatim>\<open>fmap\<close> it is a lookup in a
  dict with the two keys \<^verbatim>\<open>M\<close> and \<^verbatim>\<open>P\<close>, which raises \<^verbatim>\<open>KeyError\<close> on any other image data
  type.
\<close>

definition default_seqtype_label ::
  "string \<Rightarrow> string option \<Rightarrow> string \<Rightarrow> string \<Rightarrow> error + string option" where
  "default_seqtype_label seqtype0 seqtype_label0 protocol_name_tuned idt =
     (let label1 =
            (if seqtype0 = ''func'' \<and> \<not> truthy seqtype_label0
             then (if str_in ''_pace_'' protocol_name_tuned then Some ''pace'' else Some ''bold'')
             else seqtype_label0)
      in case (if seqtype0 = ''fmap'' \<and> \<not> truthy label1
               then (if idt = ''M'' then Inr (Some ''magnitude'')
                     else if idt = ''P'' then Inr (Some ''phasediff'')
                     else Inl KeyError)
               else Inr label1) of
           Inl e \<Rightarrow> Inl e
         | Inr label2 \<Rightarrow>
             Inr (if seqtype0 = ''dwi'' \<and> \<not> truthy label2 then Some ''dwi'' else label2))"

text \<open>
  Lines 282-312: the run counter on a run token.  \<open>idt\<close> is the image data type of the
  series and \<open>prev\<close> that of the series before it among those that are not derived
  (\<^verbatim>\<open>None\<close> at the first one).
\<close>

definition run_transition ::
  "(string \<Rightarrow> string) \<Rightarrow> SeqInfo \<Rightarrow> string \<Rightarrow> string \<Rightarrow> string option \<Rightarrow> nat \<Rightarrow> error + nat" where
  "run_transition md5sum s run_token idt prev cur =
     (if run_token = ''+'' then
        (if idt = ''P'' then
           (if prev \<noteq> Some ''M'' then
              (if md5sum (study_description s) = legacy_study_hash then Inr (cur + 1)
               else Inl RuntimeError)
            else Inr cur)
         else Inr (cur + 1))
      else if run_token = ''='' then Inr (if cur = 0 then 1 else cur)
      else if isdigit run_token then Inr (py_int run_token)
      else Inl ValueError)"

text \<open>Lines 315-317: \<^verbatim>\<open>"run-" + "%02d" % current_run\<close> (the counter is always an integer).\<close>

definition render_run_label :: "nat \<Rightarrow> string" where
  "render_run_label cur = ''run-'' @ fmt_0d 2 cur"

text \<open>Lines 322-330: the non-empty parts of the suffix, joined by underscores.\<close>

definition make_suffix :: "regd \<Rightarrow> string option \<Rightarrow> string option \<Rightarrow> string" where
  "make_suffix r run_lbl seqtype_lbl =
     (let suffix_parts =
            [case task r of None \<Rightarrow> None
               | Some t \<Rightarrow> if t = [] then None else Some (''task-'' @ t),
             case acq r of None \<Rightarrow> None
               | Some a \<Rightarrow> if a = [] then None else Some (''acq-'' @ a),
             bids r, run_lbl, seqtype_lbl]
      in str_join ''_'' (filter_bool suffix_parts))"

text \<open>Lines 226-229: the one replacement of a whole protocol name.\<close>

definition tune_protocol_name :: "string \<Rightarrow> string" where
  "tune_protocol_name pname = (if pname = ''AAHead_Scout'' then ''anat-scout'' else pname)"

text \<open>
  The body of the loop over the series (lines 200-354).  A derived series is skipped before
  anything of it is read.  \<^verbatim>\<open>s.image_type[2]\<close> raises \<^verbatim>\<open>IndexError\<close> on a tuple of fewer than
  three entries.  For an image data type that starts with \<^verbatim>\<open>MIP\<close> an \<^verbatim>\<open>acq\<close> entry is written
  into the parsed dict before the dict is tested for being empty, and \<^verbatim>\<open>regd.pop('seqtype')\<close>
  raises \<^verbatim>\<open>KeyError\<close> when there is no such entry.  The messages to the logger do not change
  any value and are left out.
\<close>

definition infotodict_step ::
  "(string \<Rightarrow> string) \<Rightarrow> SeqInfo \<Rightarrow> classifier_state \<Rightarrow> error + classifier_state" where
  "infotodict_step md5sum s st =
     (if is_derived s then Inr (st\<lparr>skipped := skipped st @ [series_id s]\<rparr>)
      else if length (image_type s) < 3 then Inl IndexError
      else
        let prev_image_data_type = image_data_type st;
            idt = image_type s ! 2;
            st1 = st\<lparr>image_data_type := Some idt\<rparr>;
            protocol_name_tuned = tune_protocol_name (protocol_name s)
        in case parse_dbic_protocol_name protocol_name_tuned of
             Inl e \<Rightarrow> Inl e
           | Inr regd0 \<Rightarrow>
               let r = (if startswith idt ''MIP''
                        then regd0\<lparr>acq := Some ((case acq regd0 of None \<Rightarrow> [] | Some a \<Rightarrow> a)
                                                  @ sanitize_str idt)\<rparr>
                        else regd0)
               in if r = empty_regd
                  then Inr (st1\<lparr>skipped_unknown := skipped_unknown st1 @ [series_id s]\<rparr>)
                  else
                    (case seqtype r of
                       None \<Rightarrow> Inl KeyError
                     | Some seqtype0 \<Rightarrow>
                    (case default_seqtype_label seqtype0 (seqtype_label r)
                            protocol_name_tuned idt of
                       Inl e \<Rightarrow> Inl e
                     | Inr seqtype_lbl \<Rightarrow>
                    (case (case run r of
                             None \<Rightarrow> Inr (current_run st1, None)
                           | Some run_token \<Rightarrow>
                               (case run_transition md5sum s run_token idt
                                       prev_image_data_type (current_run st1) of
                                  Inl e \<Rightarrow> Inl e
                                | Inr cur \<Rightarrow> Inr (cur, Some (render_run_label cur)))) of
                       Inl e \<Rightarrow> Inl e
                     | Inr (cur, run_lbl) \<Rightarrow>
                         let st2 = st1\<lparr>current_run := cur, run_label := run_lbl\<rparr>;
                             suffix = make_suffix r run_lbl seqtype_lbl
                         in if str_in ''_Scout'' (series_description s) \<or>
                               (seqtype0 = ''anat'' \<and> seqtype_lbl = Some ''scout'')
                            then Inr (st2\<lparr>skipped := skipped st2 @ [series_id s]\<rparr>)
                            else
                              (case create_key seqtype0 suffix [''nii.gz'', ''dicom''] None [] of
                                 Inl e \<Rightarrow> Inl e
                               | Inr template \<Rightarrow>
                                   Inr (st2\<lparr>info :=
                                          info_append template (series_id s) (info st2)\<rparr>))))))"

text \<open>The loop: an exception ends it and is the result.\<close>

fun infotodict_loop ::
  "(string \<Rightarrow> string) \<Rightarrow> SeqInfo list \<Rightarrow> classifier_state \<Rightarrow> error + classifier_state" where
  "infotodict_loop md5sum [] st = Inr st"
| "infotodict_loop md5sum (s # ss) st =
     (case infotodict_step md5sum s st of
        Inl e \<Rightarrow> Inl e
      | Inr st' \<Rightarrow> infotodict_loop md5sum ss st')"

section \<open>The fixup engine\<close>

text \<open>
  The patterns of the two correction tables are regular expressions of a simple form: a
  sequence of items that each match one character, namely a literal character (\<^verbatim>\<open>\+\<close> is the
  literal plus sign), the class \<^verbatim>\<open>[0-9]\<close>, or the dot, which matches every character but the
  newline.  A pattern is the list of its items.
\<close>

datatype re_item = Lit char | Digit | AnyChar

definition lit :: "string \<Rightarrow> re_item list" where
  "lit s = map Lit s"

fun re_item_matches :: "re_item \<Rightarrow> char \<Rightarrow> bool" where
  "re_item_matches (Lit a) c = (c = a)"
| "re_item_matches Digit c = is_digit c"
| "re_item_matches AnyChar c = (c \<noteq> CHR 0x0A)"

text \<open>\<^verbatim>\<open>re.match(pattern, s)\<close>: the pattern matches at the start of \<open>s\<close>.\<close>

fun re_match :: "re_item list \<Rightarrow> string \<Rightarrow> bool" where
  "re_match [] s = True"
| "re_match (p # ps) [] = False"
| "re_match (p # ps) (c # cs) = (re_item_matches p c \<and> re_match ps cs)"

text \<open>\<^verbatim>\<open>re.sub(pattern, replacement, s)\<close> for a pattern of one item or more and a replacement
  with no backslash: the matches are replaced from left to right, and the search goes on
  behind each match.\<close>

fun re_sub :: "re_item list \<Rightarrow> string \<Rightarrow> string \<Rightarrow> string" where
  "re_sub pat repl [] = []"
| "re_sub pat repl (c # cs) =
     (if re_match pat (c # cs) then repl @ re_sub pat repl (drop (length pat - 1) cs)
      else c # re_sub pat repl cs)"

text \<open>\<^verbatim>\<open>fix_accession2run\<close>.  Each pattern of the table is \<^verbatim>\<open>^\<close> followed by literal characters;
  \<^verbatim>\<open>re.match\<close> anchors at the start anyway.\<close>

definition fix_accession2run :: "(string \<times> re_item list list) list" where
  "fix_accession2run =
     [(''A000005'', [lit ''1-'']),
      (''A000035'', [lit ''8-'', lit ''9-'']),
      (''A000067'', [lit ''9-'']),
      (''A000072'', [lit ''5-'']),
      (''A000081'', [lit ''5-'']),
      (''A000082'', [lit ''5-'']),
      (''A000088'', [lit ''9-'']),
      (''A000090'', [lit ''5-''])]"

text \<open>\<^verbatim>\<open>protocols2fix\<close>\<close>

definition protocols2fix :: "(string \<times> (re_item list \<times> string) list) list" where
  "protocols2fix =
     [(''9d148e2a05f782273f6343507733309d'',
       [(lit ''anat_'', ''anat-''),
        (lit ''run-life'' @ [Digit], ''run+_task-life''),
        (lit ''scout_run+'', ''scout''),
        (lit ''T2w'', ''T2w_run+''),
        (lit ''AAHead_Scout_32ch-head-coil'', ''anat-scout''),
        (lit ''MPRAGE'', ''anat-T1w_acq-MPRAGE_run+''),
        (lit ''gre_field_mapping_2mm'', ''fmap_run+_acq-2mm''),
        (lit ''gre_field_mapping_3mm'', ''fmap_run+_acq-3mm''),
        (lit ''epi_bold_sms_p2_s4_2mm_life1_748'', ''func_run+_task-life_acq-2mm748''),
        (lit ''epi_bold_sms_p2_s4_2mm_life2_692'', ''func_run+_task-life_acq-2mm692''),
        (lit ''epi_bold_sms_p2_s4_2mm_life3_754'', ''func_run+_task-life_acq-2mm754''),
        (lit ''epi_bold_sms_p2_s4_2mm_life4_824'', ''func_run+_task-life_acq-2mm824''),
        (lit ''epi_bold_p2_3mm_nofs_life1_374'', ''func_run+_task-life_acq-3mmnofs374''),
        (lit ''epi_bold_p2_3mm_nofs_life2_346'', ''func_run+_task-life_acq-3mmnofs346''),
        (lit ''epi_bold_p2_3mm_nofs_life3_377'', ''func_run+_task-life_acq-3mmnofs377''),
        (lit ''epi_bold_p2_3mm_nofs_life4_412'', ''func_run+_task-life_acq-3mmnofs412''),
        (lit ''t2_space_sag_p4_iso'', ''anat-T2w_run+''),
        (lit ''gre_field_mapping_2'' @ [AnyChar] @ lit ''4mm'', ''fmap_run+_acq-2.4mm''),
        (lit ''rest_p2_sms4_2'' @ [AnyChar] @ lit ''4mm_64sl_1000tr_32te_600dyn'',
         ''func_run+_task-rest_acq-2.4mm64sl1000tr32te600dyn''),
        (lit ''DTI_30'', ''dwi_run+_acq-30''),
        (lit ''t1_space_sag_p2_iso'', ''anat-T1w_acq-060mm_run+'')]),
      (''76b36c80231b0afaf509e2d52046e964'',
       [(lit ''fmap_run+_2mm'', ''fmap_run+_acq-2mm'')]),
      (''c6d8fbccc72990bee61d28e73b2618a4'',
       [(lit ''run='', ''run+'')])]"

text \<open>\<^verbatim>\<open>fix_canceled_runs\<close>: \<^verbatim>\<open>cancelme_\<close> is put before the protocol name and the series
  description (\<^verbatim>\<open>keys2replace\<close>) of every series whose id matches one of the patterns of the
  batch's accession number.\<close>

definition fix_canceled_runs ::
  "SeqInfo list \<Rightarrow> (string \<times> re_item list list) list \<Rightarrow> error + SeqInfo list" where
  "fix_canceled_runs seqinfo accession2run =
     (case get_unique seqinfo accession_number of
        Inl e \<Rightarrow> Inl e
      | Inr accession \<Rightarrow>
          (case map_of accession2run accession of
             None \<Rightarrow> Inr seqinfo
           | Some badruns \<Rightarrow>
               Inr (map (\<lambda>s. if list_ex (\<lambda>p. re_match p (series_id s)) badruns
                              then s\<lparr>protocol_name := ''cancelme_'' @ protocol_name s,
                                     series_description := ''cancelme_'' @ series_description s\<rparr>
                              else s) seqinfo)))"

text \<open>\<^verbatim>\<open>fix_dbic_protocol\<close>, with \<^verbatim>\<open>keys\<close> at its default \<^verbatim>\<open>keys2replace\<close>: every substitution of
  the study, in the order of the table, on the protocol name and on the series
  description.\<close>

definition apply_substitutions :: "(re_item list \<times> string) list \<Rightarrow> string \<Rightarrow> string" where
  "apply_substitutions substitutions v =
     foldl (\<lambda>value (substring, replacement). re_sub substring replacement value) v substitutions"

definition fix_dbic_protocol ::
  "(string \<Rightarrow> string) \<Rightarrow> SeqInfo list \<Rightarrow> (string \<times> (re_item list \<times> string) list) list
     \<Rightarrow> error + SeqInfo list" where
  "fix_dbic_protocol md5sum seqinfo subsdict =
     (case fix_canceled_runs seqinfo fix_accession2run of
        Inl e \<Rightarrow> Inl e
      | Inr seqinfo1 \<Rightarrow>
     (case get_unique seqinfo1 study_description of
        Inl e \<Rightarrow> Inl e
      | Inr study_descr \<Rightarrow>
     (case map_of subsdict (md5sum study_descr) of
        None \<Rightarrow> Inl ValueError
      | Some substitutions \<Rightarrow>
          Inr (map (\<lambda>s. s\<lparr>protocol_name := apply_substitutions substitutions (protocol_name s),
                           series_description :=
                             apply_substitutions substitutions (series_description s)\<rparr>)
                 seqinfo1))))"

text \<open>
  \<^verbatim>\<open>infotodict\<close>: the fixups of a study whose digest is in \<^verbatim>\<open>protocols2fix\<close>, then the loop.  The
  source returns \<^verbatim>\<open>info\<close> and writes the two lists of skipped series to the logger;
  \<open>infotodict_state\<close> gives the final values of all the variables of the loop.
\<close>

definition infotodict_state ::
  "(string \<Rightarrow> string) \<Rightarrow> SeqInfo list \<Rightarrow> error + classifier_state" where
  "infotodict_state md5sum seqinfo =
     (case get_unique seqinfo study_description of
        Inl e \<Rightarrow> Inl e
      | Inr study_descr \<Rightarrow>
          (case (if md5sum study_descr \<in> set (map fst protocols2fix)
                 then fix_dbic_protocol md5sum seqinfo protocols2fix
                 else Inr seqinfo) of
             Inl e \<Rightarrow> Inl e
           | Inr seqinfo1 \<Rightarrow> infotodict_loop md5sum seqinfo1 initial_state))"

definition infotodict ::
  "(string \<Rightarrow> string) \<Rightarrow> SeqInfo list \<Rightarrow> error + (template_key \<times> string list) list" where
  "infotodict md5sum seqinfo =
     (case infotodict_state md5sum seqinfo of
        Inl e \<Rightarrow> Inl e
      | Inr st \<Rightarrow> Inr (info st))"


section \<open>Example series\<close>

text \<open>A series that is not derived, of a study by \<^verbatim>\<open>Haxby-Bob^study\<close> on subject \<^verbatim>\<open>sid000030\<close>,
  with the given id, protocol name (also its series description) and third image-type
  entry.  It is the input of the examples below.\<close>

definition a_series :: "string \<Rightarrow> string \<Rightarrow> string \<Rightarrow> SeqInfo" where
  "a_series sid pname idt =
     \<lparr>series_id = sid, protocol_name = pname, is_derived = False,
      patient_id = ''sid000030'', study_description = ''Haxby-Bob^study'',
      series_description = pname, image_type = [''ORIGINAL'', ''PRIMARY'', idt],
      accession_number = ''A000100''\<rparr>"

section \<open>Properties of the protocol-name parser\<close>

lemmas parse_eval = parse_dbic_protocol_name_def protocol_tokens_def parse_split_def
  Let_def split2_def parse_item_def seqtypes_def
  empty_regd_def regd_store_def py_str_def str_replace_def sanitize_str_def

text \<open>
  Claim C8.  The parser is not total on tag-only input: when the content of the name before
  the first double underscore is exactly the token \<^verbatim>\<open>bids\<close>, dropping that token leaves an
  empty token list, and reading its first element raises \<^verbatim>\<open>IndexError\<close>; the empty "not
  classifiable" result is not returned.
\<close>

theorem parse_tag_only_raises:
  "hd (str_split1 ''__'' name) = ''bids'' \<Longrightarrow> parse_dbic_protocol_name name = Inl IndexError"
  by (simp add: parse_dbic_protocol_name_def protocol_tokens_def parse_split_def Let_def)

theorem parse_tag_only_raises_witness:
  "hd (str_split1 ''__'' ''bids__therest'') = ''bids'' \<and>
   parse_dbic_protocol_name ''bids__therest'' = Inl IndexError"
  using parse_tag_only_raises [of "''bids__therest''"] by simp

text \<open>
  Claim C10.  A token after the first that is a bare recognized key (\<^verbatim>\<open>ses\<close>, \<^verbatim>\<open>run\<close>, \<^verbatim>\<open>task\<close>
  or \<^verbatim>\<open>acq\<close>, with no hyphen and no final \<^verbatim>\<open>+\<close> or \<^verbatim>\<open>=\<close>) is stored under that key with the
  string \<^verbatim>\<open>None\<close> as its value, whatever the dict and the leftovers are at that point; so
  \<^verbatim>\<open>func_task\<close> parses to seqtype \<^verbatim>\<open>func\<close> with task \<^verbatim>\<open>None\<close>.
\<close>

theorem parse_bare_key_None:
  "parse_item ''ses'' (r, l) = Inr (r\<lparr>session := Some ''None''\<rparr>, l) \<and>
   parse_item ''run'' (r, l) = Inr (r\<lparr>run := Some ''None''\<rparr>, l) \<and>
   parse_item ''task'' (r, l) = Inr (r\<lparr>task := Some ''None''\<rparr>, l) \<and>
   parse_item ''acq'' (r, l) = Inr (r\<lparr>acq := Some ''None''\<rparr>, l) \<and>
   parse_dbic_protocol_name ''func_task'' =
     Inr \<lparr>seqtype = Some ''func'', seqtype_label = None, session = None, run = None,
          task = Some ''None'', acq = None, bids = None\<rparr>"
  by (simp add: parse_eval)

section \<open>Properties of subject-id normalization\<close>

lemmas subj_eval = fixup_subjectid_def lower_def lower_char_def sid_match_def sid_group_def
  isdigit_def is_digit_def fmt_0d_def py_int_def digit_val_def str_of_nat.simps

lemma lower_char_fix: "c \<notin> set ''ABCDEFGHIJKLMNOPQRSTUVWXYZ'' \<Longrightarrow> lower_char c = c"
  by (simp add: lower_char_def)

lemma lower_char_range:
  "lower_char c = c \<or> lower_char c \<in> set ''abcdefghijklmnopqrstuvwxyz''"
  by (simp add: lower_char_def)

lemma lower_not_upper:
  "c \<in> set ''abcdefghijklmnopqrstuvwxyz'' \<Longrightarrow> c \<notin> set ''ABCDEFGHIJKLMNOPQRSTUVWXYZ''"
  by auto

lemma lower_char_idem: "lower_char (lower_char c) = lower_char c"
  using lower_char_range [of c] lower_not_upper [of "lower_char c"]
    lower_char_fix [of "lower_char c"] by auto

lemma lower_idem: "lower (lower s) = lower s"
  by (simp add: lower_def lower_char_idem)

lemma lower_char_sep: "lower_char c \<in> set ''-_'' \<longleftrightarrow> c \<in> set ''-_''"
proof (cases "c \<in> set ''ABCDEFGHIJKLMNOPQRSTUVWXYZ''")
  case True
  have "lower_char c \<noteq> c" using True by (auto simp: lower_char_def)
  then have "lower_char c \<in> set ''abcdefghijklmnopqrstuvwxyz''"
    using lower_char_range [of c] by simp
  then have "lower_char c \<notin> set ''-_''" by auto
  moreover have "c \<notin> set ''-_''" using True by auto
  ultimately show ?thesis by simp
next
  case False
  then have "lower_char c = c" by (rule lower_char_fix)
  then show ?thesis by simp
qed

lemma lower_filter_sep:
  "lower (filter (\<lambda>c. c \<notin> set ''-_'') s) = filter (\<lambda>c. c \<notin> set ''-_'') (lower s)"
  unfolding lower_def by (induction s) (use lower_char_sep in auto)

lemma lower_char_digit: "is_digit c \<Longrightarrow> lower_char c = c"
proof -
  assume "is_digit c"
  then have "c \<notin> set ''ABCDEFGHIJKLMNOPQRSTUVWXYZ''" by (auto simp: is_digit_def)
  then show ?thesis by (rule lower_char_fix)
qed

lemma lower_digits: "list_all is_digit d \<Longrightarrow> lower d = d"
  unfolding lower_def by (induction d) (simp_all add: lower_char_digit)

lemma lower_append: "lower (a @ b) = lower a @ lower b"
  by (simp add: lower_def)

lemma lower_sid: "lower ''sid'' = ''sid''"
  by (simp add: lower_def lower_char_def)

lemma less_10_cases:
  "(n::nat) < 10 \<Longrightarrow>
   n = 0 \<or> n = 1 \<or> n = 2 \<or> n = 3 \<or> n = 4 \<or> n = 5 \<or> n = 6 \<or> n = 7 \<or> n = 8 \<or> n = 9"
  by presburger

lemma digit_nth:
  "n < 10 \<Longrightarrow> is_digit (''0123456789'' ! n) \<and> digit_val (''0123456789'' ! n) = n"
proof -
  assume "n < 10"
  then have "n = 0 \<or> n = 1 \<or> n = 2 \<or> n = 3 \<or> n = 4 \<or> n = 5 \<or> n = 6 \<or> n = 7 \<or> n = 8 \<or> n = 9"
    by (rule less_10_cases)
  then show ?thesis
    by (elim disjE) (simp_all add: is_digit_def digit_val_def)
qed

lemma py_int_snoc: "py_int (d @ [c]) = 10 * py_int d + digit_val c"
  by (simp add: py_int_def)

lemma py_int_zero_Cons: "py_int (CHR ''0'' # d) = py_int d"
  by (simp add: py_int_def digit_val_def)

lemma py_int_zeros: "py_int (replicate k CHR ''0'' @ d) = py_int d"
  by (induction k) (simp_all add: py_int_zero_Cons)

lemma py_int_dropWhile: "py_int (dropWhile (\<lambda>c. c = CHR ''0'') d) = py_int d"
  by (induction d) (simp_all add: py_int_zero_Cons)

lemma py_int_sid_group: "py_int (sid_group d) = py_int d"
proof (cases "dropWhile (\<lambda>c. c = CHR ''0'') d = []")
  case True
  have "py_int d = py_int (dropWhile (\<lambda>c. c = CHR ''0'') d)"
    by (simp only: py_int_dropWhile)
  also have "\<dots> = py_int []" by (simp only: True)
  also have "\<dots> = py_int ''0''" by (simp add: py_int_def digit_val_def)
  also have "''0'' = sid_group d" unfolding sid_group_def Let_def True by simp
  finally show ?thesis by simp
next
  case False
  have "sid_group d = dropWhile (\<lambda>c. c = CHR ''0'') d"
    unfolding sid_group_def Let_def by (simp only: False if_False)
  then show ?thesis by (simp only: py_int_dropWhile)
qed

lemma str_of_nat_digits: "str_of_nat n \<noteq> [] \<and> list_all is_digit (str_of_nat n)"
proof (induction n rule: str_of_nat.induct)
  case (1 n)
  show ?case
  proof (cases "n < 10")
    case True
    then show ?thesis by (simp add: str_of_nat.simps [of n] digit_nth)
  next
    case False
    have "n mod 10 < 10" by simp
    with False 1 show ?thesis by (simp add: str_of_nat.simps [of n] digit_nth)
  qed
qed

lemma py_int_str_of_nat: "py_int (str_of_nat n) = n"
proof (induction n rule: str_of_nat.induct)
  case (1 n)
  show ?case
  proof (cases "n < 10")
    case True
    then have "py_int (str_of_nat n) = digit_val (''0123456789'' ! n)"
      by (simp add: str_of_nat.simps [of n] py_int_def)
    with True show ?thesis by (simp add: digit_nth)
  next
    case False
    have m: "n mod 10 < 10" by simp
    from False have "str_of_nat n = str_of_nat (n div 10) @ [''0123456789'' ! (n mod 10)]"
      by (simp add: str_of_nat.simps [of n])
    then have "py_int (str_of_nat n) = 10 * py_int (str_of_nat (n div 10)) + n mod 10"
      using digit_nth [OF m] by (simp only: py_int_snoc)
    also have "\<dots> = 10 * (n div 10) + n mod 10" using 1 False by simp
    finally show ?thesis by simp
  qed
qed

lemma replicate_zero_digits: "list_all is_digit (replicate k CHR ''0'')"
  by (induction k) (simp_all add: is_digit_def)

lemma fmt_0d_digits: "fmt_0d w n \<noteq> [] \<and> list_all is_digit (fmt_0d w n)"
  using str_of_nat_digits [of n] replicate_zero_digits
  by (simp add: fmt_0d_def Let_def)

lemma py_int_fmt_0d: "py_int (fmt_0d w n) = n"
  by (simp add: fmt_0d_def Let_def py_int_zeros py_int_str_of_nat)

lemma digit_not_newline: "is_digit c \<Longrightarrow> c \<noteq> CHR 0x0A"
  by (auto simp: is_digit_def)

lemma sid_match_digits:
  assumes "d \<noteq> []" and "list_all is_digit d"
  shows "sid_match (''sid'' @ d) = Some (sid_group d)"
proof -
  from assms have "is_digit (last d)" by (simp add: list_all_iff)
  then have "last d \<noteq> CHR 0x0A" by (rule digit_not_newline)
  with assms show ?thesis by (simp add: sid_match_def isdigit_def)
qed

lemma fixup_subjectid_rendered:
  "fixup_subjectid (''sid'' @ fmt_0d 6 n) = ''sid'' @ fmt_0d 6 n"
proof -
  have d: "fmt_0d 6 n \<noteq> []" "list_all is_digit (fmt_0d 6 n)"
    using fmt_0d_digits by auto
  have "lower (''sid'' @ fmt_0d 6 n) = ''sid'' @ fmt_0d 6 n"
    by (simp only: lower_append lower_sid lower_digits [OF d(2)])
  moreover have "sid_match (''sid'' @ fmt_0d 6 n) = Some (sid_group (fmt_0d 6 n))"
    using d by (rule sid_match_digits)
  moreover have "py_int (sid_group (fmt_0d 6 n)) = n"
    by (simp only: py_int_sid_group py_int_fmt_0d)
  ultimately show ?thesis by (simp add: fixup_subjectid_def)
qed

lemma replicate_numeral: "replicate (numeral k) x = x # replicate (pred_numeral k) x"
  by (simp add: numeral_eq_Suc)

text \<open>
  Claim C6, as stated, fails: \<^verbatim>\<open>sid-30\<close> does not match the pattern, so only its hyphen is
  removed, and the result \<^verbatim>\<open>sid30\<close> does match and is rendered as \<^verbatim>\<open>sid000030\<close> by a second
  normalization.
\<close>

theorem fixup_subjectid_not_idempotent:
  "fixup_subjectid (fixup_subjectid ''sid-30'') \<noteq> fixup_subjectid ''sid-30''"
  by (simp add: subj_eval replicate_numeral)

text \<open>
  Claim C6, amended.  Normalization is idempotent on every string whose lower-cased form
  matches the \<^verbatim>\<open>sid\<close> pattern, and on every string whose lower-cased form still does not
  match it once hyphens and underscores are removed; \<^verbatim>\<open>sid30\<close>, \<^verbatim>\<open>sid0030\<close>, \<^verbatim>\<open>SID30\<close> and
  \<^verbatim>\<open>sid000030\<close> normalize to \<^verbatim>\<open>sid000030\<close>, and \<^verbatim>\<open>abra\<close> to \<^verbatim>\<open>abra\<close>.
\<close>

theorem fixup_subjectid_idem_amended:
  assumes "sid_match (lower s) \<noteq> None \<or>
           sid_match (filter (\<lambda>c. c \<notin> set ''-_'') (lower s)) = None"
  shows "fixup_subjectid (fixup_subjectid s) = fixup_subjectid s \<and>
         fixup_subjectid ''sid30'' = ''sid000030'' \<and>
         fixup_subjectid ''sid0030'' = ''sid000030'' \<and>
         fixup_subjectid ''SID30'' = ''sid000030'' \<and>
         fixup_subjectid ''sid000030'' = ''sid000030'' \<and>
         fixup_subjectid ''abra'' = ''abra''"
proof -
  have "fixup_subjectid (fixup_subjectid s) = fixup_subjectid s"
  proof (cases "sid_match (lower s)")
    case (Some g)
    then have "fixup_subjectid s = ''sid'' @ fmt_0d 6 (py_int g)"
      by (simp add: fixup_subjectid_def)
    then show ?thesis using fixup_subjectid_rendered [of "py_int g"] by simp
  next
    case None
    let ?g = "filter (\<lambda>c. c \<notin> set ''-_'') (lower s)"
    from None have fs: "fixup_subjectid s = ?g" by (simp add: fixup_subjectid_def)
    have low: "lower ?g = ?g" by (simp only: lower_filter_sep lower_idem)
    from None assms have "sid_match ?g = None" by simp
    with low have "fixup_subjectid ?g = ?g" by (simp add: fixup_subjectid_def)
    with fs show ?thesis by simp
  qed
  moreover have "fixup_subjectid ''sid30'' = ''sid000030''"
    by (simp add: subj_eval replicate_numeral)
  moreover have "fixup_subjectid ''sid0030'' = ''sid000030''"
    by (simp add: subj_eval replicate_numeral)
  moreover have "fixup_subjectid ''SID30'' = ''sid000030''"
    by (simp add: subj_eval replicate_numeral)
  moreover have "fixup_subjectid ''sid000030'' = ''sid000030''"
    by (simp add: subj_eval replicate_numeral)
  moreover have "fixup_subjectid ''abra'' = ''abra''"
    by (simp add: subj_eval)
  ultimately show ?thesis by simp
qed

theorem fixup_subjectid_idem_amended_witness:
  "sid_match (lower ''SID30'') = Some ''30'' \<and>
   fixup_subjectid (fixup_subjectid ''SID30'') = fixup_subjectid ''SID30'' \<and>
   fixup_subjectid ''SID30'' = ''sid000030''"
proof -
  have m: "sid_match (lower ''SID30'') = Some ''30''"
    by (simp add: subj_eval)
  then have h: "sid_match (lower ''SID30'') \<noteq> None \<or>
           sid_match (filter (\<lambda>c. c \<notin> set ''-_'') (lower ''SID30'')) = None"
    by simp
  from fixup_subjectid_idem_amended [OF h] m show ?thesis by simp
qed

section \<open>Properties of the identity resolver\<close>

lemmas ids_eval = infotoids_def get_unique_def deduce_session_def filter_bool_def
  legacy_study_hash_def digest_to_def multi_session_warning_def a_series_def
  parse_warnings_def bids_flag_def unknown_type_warning_def

lemma ses_markers_of_no_session:
  assumes "\<forall>s\<in>set seqinfos. \<not> is_derived s \<longrightarrow>
             (\<exists>regd. parse_dbic_protocol_name (protocol_name s) = Inr regd \<and> session regd = None)"
  shows "\<exists>ms. ses_markers_of seqinfos = Inr ms \<and> filter_bool ms = []"
  using assms
proof (induction seqinfos)
  case Nil
  show ?case by (simp add: filter_bool_def)
next
  case (Cons s ss)
  then obtain ms where ms: "ses_markers_of ss = Inr ms" "filter_bool ms = []" by auto
  show ?case
  proof (cases "is_derived s")
    case True
    with ms show ?thesis by simp
  next
    case False
    with Cons.prems obtain regd where
      "parse_dbic_protocol_name (protocol_name s) = Inr regd" "session regd = None" by auto
    with False ms show ?thesis by (simp add: filter_bool_def)
  qed
qed

text \<open>A tagged name of unknown seqtype has no session token; the parser's warning about it
  is among those that \<^verbatim>\<open>infotoids\<close> logs.\<close>

lemma infotoids_parser_warning:
  "infotoids (digest_to ''0'') [a_series ''1-foo'' ''bids_foo'' ''M''] ''out'' =
     ([''It was instructed to be BIDS sequence but unknown type foo found''],
      Inr \<lparr>locator = ''Haxby/Bob/study'', ids_session = None, subject = ''sid000030''\<rparr>)"
  by (simp add: ids_eval parse_eval subj_eval replicate_numeral)

text \<open>
  Claim C1, as stated, fails on the legacy study: a batch with no session token whose study
  description has the legacy digest gets the session \<^verbatim>\<open>siemens1\<close>, which line 434 imposes
  whatever the markers are.
\<close>

theorem infotoids_no_session_legacy:
  "ses_markers_of [a_series ''2-MPRAGE'' ''anat-T1w'' ''M''] = Inr [None] \<and>
   infotoids (digest_to legacy_study_hash) [a_series ''2-MPRAGE'' ''anat-T1w'' ''M''] ''out'' =
     ([], Inr \<lparr>locator = ''Haxby/Bob/study'', ids_session = Some ''siemens1'',
               subject = ''sid000030''\<rparr>)"
  by (simp add: ids_eval parse_eval subj_eval replicate_numeral)

text \<open>
  Claim C1, amended.  For every batch with one study description and one patient id in which
  the protocol name of every series that is not derived parses and has no session token,
  \<^verbatim>\<open>infotoids\<close> returns, and the session of its result is absent, unless the digest of the
  study description is the legacy one, and then it is \<^verbatim>\<open>siemens1\<close>.  The markers are a list
  (Python 2), so an empty list after filtering never gives the default \<^verbatim>\<open>001\<close>.
\<close>

theorem infotoids_no_session_amended:
  assumes "get_unique seqinfos study_description = Inr study_descr"
    and "get_unique seqinfos patient_id = Inr pid"
    and "\<forall>s\<in>set seqinfos. \<not> is_derived s \<longrightarrow>
           (\<exists>regd. parse_dbic_protocol_name (protocol_name s) = Inr regd \<and> session regd = None)"
  shows "\<exists>loc. snd (infotoids md5sum seqinfos outdir) =
           Inr \<lparr>locator = loc,
                ids_session = (if md5sum study_descr = legacy_study_hash
                               then Some ''siemens1'' else None),
                subject = fixup_subjectid pid\<rparr>"
proof -
  from assms(3) obtain ms where "ses_markers_of seqinfos = Inr ms" "filter_bool ms = []"
    using ses_markers_of_no_session by blast
  with assms(1,2) show ?thesis
    by (simp add: infotoids_def deduce_session_def Let_def)
qed

theorem infotoids_no_session_amended_witness:
  "get_unique [a_series ''1-func'' ''func_run+_task-rest'' ''M''] study_description
     = Inr ''Haxby-Bob^study'' \<and>
   get_unique [a_series ''1-func'' ''func_run+_task-rest'' ''M''] patient_id = Inr ''sid000030'' \<and>
   ses_markers_of [a_series ''1-func'' ''func_run+_task-rest'' ''M''] = Inr [None] \<and>
   (\<exists>loc. snd (infotoids (digest_to ''0'') [a_series ''1-func'' ''func_run+_task-rest'' ''M''] ''out'') =
      Inr \<lparr>locator = loc, ids_session = None, subject = ''sid000030''\<rparr>)"
proof -
  let ?b = "[a_series ''1-func'' ''func_run+_task-rest'' ''M'']"
  have h1: "get_unique ?b study_description = Inr ''Haxby-Bob^study''"
    by (simp add: get_unique_def a_series_def)
  have h2: "get_unique ?b patient_id = Inr ''sid000030''"
    by (simp add: get_unique_def a_series_def)
  have h3: "\<forall>s\<in>set ?b. \<not> is_derived s \<longrightarrow>
      (\<exists>regd. parse_dbic_protocol_name (protocol_name s) = Inr regd \<and> session regd = None)"
    by (simp add: a_series_def parse_eval)
  have m: "ses_markers_of ?b = Inr [None]"
    by (simp add: a_series_def parse_eval)
  have f: "fixup_subjectid ''sid000030'' = ''sid000030''"
    by (simp add: subj_eval replicate_numeral)
  from infotoids_no_session_amended [OF h1 h2 h3, of "digest_to ''0''" "''out''"] h1 h2 m f
  show ?thesis by (simp add: digest_to_def legacy_study_hash_def)
qed

text \<open>With two markers or more and no sigil among them, the assertion of line 423 fails.\<close>

lemma deduce_session_several_explicit:
  assumes "length ses_markers \<ge> 2" and "\<not> list_ex (\<lambda>v. v \<in> set [''+'', ''='']) ses_markers"
  shows "snd (deduce_session ses_markers) = Inl AssertionError"
proof -
  from assms(1) have ne: "ses_markers \<noteq> []" by auto
  from assms(2) have "filter (\<lambda>v. v \<notin> set [''+'', ''='']) ses_markers = ses_markers"
    by (simp add: list_ex_iff filter_id_conv)
  with ne assms show ?thesis
    by (simp add: deduce_session_def Let_def)
qed

text \<open>With exactly one marker, an explicit one, the code does what claim C2 says, but for
  the legacy study, whose session is always \<^verbatim>\<open>siemens1\<close>.\<close>

lemma infotoids_single_explicit_session:
  assumes "get_unique seqinfos study_description = Inr study_descr"
    and "get_unique seqinfos patient_id = Inr pid"
    and "ses_markers_of seqinfos = Inr ms"
    and "filter_bool ms = [v]"
    and "v \<notin> set [''+'', ''='']"
  shows "\<exists>loc. snd (infotoids md5sum seqinfos outdir) =
           Inr \<lparr>locator = loc,
                ids_session = Some (if md5sum study_descr = legacy_study_hash
                                    then ''siemens1'' else v),
                subject = fixup_subjectid pid\<rparr>"
  using assms by (simp add: infotoids_def deduce_session_def Let_def)

text \<open>
  Claim C2 fails on the code.  The two series below are not derived and carry the explicit
  sessions \<^verbatim>\<open>1\<close> and \<^verbatim>\<open>2\<close>, with no sigil: the code logs the warning, whose text says that
  processing goes on until the end of the first session, and then stops at
  \<^verbatim>\<open>assert len(ses_markers) == 1\<close> with \<^verbatim>\<open>AssertionError\<close>, instead of returning the session
  \<^verbatim>\<open>1\<close>.  The assertion counts the markers and not the distinct values, so two series with
  the same explicit session \<^verbatim>\<open>1\<close> stop there as well, with no warning.
\<close>

theorem infotoids_explicit_sessions_abort:
  "infotoids (digest_to ''0'')
     [a_series ''1-func'' ''func_ses-1'' ''M'', a_series ''2-func'' ''func_ses-2'' ''M''] ''out''
     = ([multi_session_warning], Inl AssertionError) \<and>
   infotoids (digest_to ''0'')
     [a_series ''1-func'' ''func_ses-1'' ''M'', a_series ''2-func'' ''func_ses-1'' ''M''] ''out''
     = ([], Inl AssertionError)"
  by (simp add: ids_eval parse_eval subj_eval replicate_numeral)

theorem infotoids_explicit_sessions_abort_witness:
  "snd (infotoids (digest_to ''0'')
     [a_series ''1-func'' ''func_ses-1'' ''M'', a_series ''2-func'' ''func_ses-2'' ''M''] ''out'')
     = Inl AssertionError"
  using infotoids_explicit_sessions_abort by (simp only: snd_conv)

section \<open>Order of the tokens in a protocol name\<close>

lemma split1_hyphen:
  "CHR ''-'' \<in> set s \<Longrightarrow> \<exists>k v. str_split1 ''-'' s = [k, v]"
proof (induction s)
  case Nil
  then show ?case by simp
next
  case (Cons c cs)
  show ?case
  proof (cases "c = CHR ''-''")
    case True
    then show ?thesis by simp
  next
    case False
    with Cons obtain k v where "str_split1 ''-'' cs = [k, v]" by auto
    with False show ?thesis by simp
  qed
qed

lemma split2_cases:
  "(CHR ''-'' \<in> set s \<and> (\<exists>k v. split2 s = (k, Some v))) \<or> (CHR ''-'' \<notin> set s \<and> split2 s = (s, None))"
proof (cases "CHR ''-'' \<in> set s")
  case True
  then obtain k v where "str_split1 ''-'' s = [k, v]" using split1_hyphen by blast
  with True show ?thesis by (simp add: split2_def)
next
  case False
  then show ?thesis by (simp add: split2_def)
qed

lemma parse_item_empty: "parse_item [] st = Inl IndexError"
  by (cases st) (simp add: parse_item_def split2_def)

lemma parse_item_slot:
  assumes "s \<noteq> []"
  shows "parse_item s (r, l) =
           (if item_slot s = [] then Inr (r, l @ [s])
            else Inr (regd_store (if item_slot s = ''ses'' then ''session'' else item_slot s)
                                 (item_value s) r, l))"
proof -
  from split2_cases [of s] show ?thesis
  proof (elim disjE conjE exE)
    fix k v assume "split2 s = (k, Some v)"
    then show ?thesis
      by (auto simp: parse_item_def item_slot_def item_key_def item_value_def Let_def)
  next
    assume "split2 s = (s, None)"
    with assms show ?thesis
      by (auto simp: parse_item_def item_slot_def item_key_def item_value_def Let_def)
  qed
qed


lemma item_slot_range:
  "item_slot s = [] \<or> item_slot s = ''ses'' \<or> item_slot s = ''run'' \<or>
   item_slot s = ''task'' \<or> item_slot s = ''acq''"
  by (simp add: item_slot_def)

lemma slot_value_Cons:
  "slot_value k (s # ss) old =
     slot_value k ss (if item_slot s = k then Some (item_value s) else old)"
  by (simp add: slot_value_def split: list.splits)

lemma parse_items_error: "[] \<in> set ts \<Longrightarrow> parse_items ts st = Inl IndexError"
proof (induction ts arbitrary: st)
  case Nil
  then show ?case by simp
next
  case (Cons s ss)
  show ?case
  proof (cases "s = []")
    case True
    then show ?thesis by (simp add: parse_item_empty)
  next
    case False
    obtain r l where st: "st = (r, l)" by (cases st)
    from False obtain st' where "parse_item s st = Inr st'"
      unfolding st by (cases "item_slot s = []") (simp_all add: parse_item_slot)
    moreover from False Cons.prems have "[] \<in> set ss" by auto
    ultimately show ?thesis using Cons.IH by simp
  qed
qed

lemma parse_items_slots:
  "[] \<notin> set ts \<Longrightarrow>
   parse_items ts (r, l) =
     Inr (r\<lparr>session := slot_value ''ses'' ts (session r),
            run := slot_value ''run'' ts (run r),
            task := slot_value ''task'' ts (task r),
            acq := slot_value ''acq'' ts (acq r)\<rparr>,
          l @ filter (\<lambda>s. item_slot s = []) ts)"
proof (induction ts arbitrary: r l)
  case Nil
  show ?case by (simp add: slot_value_def)
next
  case (Cons s ss)
  then have s: "s \<noteq> []" and ss: "[] \<notin> set ss" by auto
  note step = parse_item_slot [OF s, of r l]
  from item_slot_range [of s] show ?case
  proof (elim disjE)
    assume a: "item_slot s = []"
    with step have "parse_items (s # ss) (r, l) = parse_items ss (r, l @ [s])" by simp
    then show ?thesis
      unfolding Cons.IH [OF ss] by (simp add: slot_value_Cons a)
  next
    assume a: "item_slot s = ''ses''"
    with step have "parse_items (s # ss) (r, l) =
        parse_items ss (r\<lparr>session := Some (item_value s)\<rparr>, l)"
      by (simp add: regd_store_def)
    then show ?thesis
      unfolding Cons.IH [OF ss] by (simp add: slot_value_Cons a)
  next
    assume a: "item_slot s = ''run''"
    with step have "parse_items (s # ss) (r, l) =
        parse_items ss (r\<lparr>run := Some (item_value s)\<rparr>, l)"
      by (simp add: regd_store_def)
    then show ?thesis
      unfolding Cons.IH [OF ss] by (simp add: slot_value_Cons a)
  next
    assume a: "item_slot s = ''task''"
    with step have "parse_items (s # ss) (r, l) =
        parse_items ss (r\<lparr>task := Some (item_value s)\<rparr>, l)"
      by (simp add: regd_store_def)
    then show ?thesis
      unfolding Cons.IH [OF ss] by (simp add: slot_value_Cons a)
  next
    assume a: "item_slot s = ''acq''"
    with step have "parse_items (s # ss) (r, l) =
        parse_items ss (r\<lparr>acq := Some (item_value s)\<rparr>, l)"
      by (simp add: regd_store_def)
    then show ?thesis
      unfolding Cons.IH [OF ss] by (simp add: slot_value_Cons a)
  qed
qed

lemma item_slot_empty: "item_slot [] = []"
  by (simp add: item_slot_def item_key_def split2_def)

lemma empty_token_filter:
  "[] \<in> set ts \<longleftrightarrow> [] \<in> set (filter (\<lambda>s. item_slot s = []) ts)"
  by (simp add: item_slot_empty)

lemma parse_items_reorder:
  assumes "\<forall>k. filter (\<lambda>s. item_slot s = k) ts = filter (\<lambda>s. item_slot s = k) ts'"
  shows "parse_items ts st = parse_items ts' st"
proof -
  obtain r l where st: "st = (r, l)" by (cases st)
  from assms have lo: "filter (\<lambda>s. item_slot s = []) ts = filter (\<lambda>s. item_slot s = []) ts'"
    by blast
  have sv: "slot_value k ts old = slot_value k ts' old" for k old
  proof -
    from assms have "filter (\<lambda>s. item_slot s = k) ts = filter (\<lambda>s. item_slot s = k) ts'"
      by blast
    then show ?thesis by (simp only: slot_value_def)
  qed
  have e: "[] \<in> set ts \<longleftrightarrow> [] \<in> set ts'"
    by (metis empty_token_filter lo)
  show ?thesis
  proof (cases "[] \<in> set ts")
    case True
    with e show ?thesis by (simp add: parse_items_error)
  next
    case False
    with e have "[] \<notin> set ts'" by simp
    with False show ?thesis unfolding st by (simp add: parse_items_slots sv lo)
  qed
qed


text \<open>
  Claim C7, as stated, fails: the leftover tokens are joined in the order in which they
  stand, and of two tokens with the same recognized key the later one wins, so exchanging
  two such tokens changes the result.
\<close>

theorem parse_order_matters:
  "parse_dbic_protocol_name ''func_x_y'' \<noteq> parse_dbic_protocol_name ''func_y_x'' \<and>
   parse_dbic_protocol_name ''func_task-a_task-b'' \<noteq> parse_dbic_protocol_name ''func_task-b_task-a''"
  by (simp add: parse_eval)

text \<open>
  Claim C7, amended.  Parsing gives the same result for two token lists after the same
  seqtype token when, for each of the keys \<^verbatim>\<open>ses\<close>, \<^verbatim>\<open>run\<close>, \<^verbatim>\<open>task\<close> and \<^verbatim>\<open>acq\<close>, the tokens
  with that key come in the same order in both lists, and so do the leftover tokens (this
  makes the second list a reordering of the first that only moves tokens of different
  kinds past each other).  The name
  \<^verbatim>\<open>bids_func-pace_ses-1_task-boo_acq-bu_bids-please_run-2\<close>, its reordering with \<^verbatim>\<open>run-2\<close>
  moved forward and its untagged form all parse to seqtype \<^verbatim>\<open>func\<close>, label \<^verbatim>\<open>pace\<close>, session
  \<^verbatim>\<open>1\<close>, run \<^verbatim>\<open>2\<close>, task \<^verbatim>\<open>boo\<close>, acq \<^verbatim>\<open>bu\<close> and leftover \<^verbatim>\<open>bids-please\<close>.
\<close>

theorem parse_reorder_amended:
  assumes "\<forall>k. filter (\<lambda>s. item_slot s = k) ts = filter (\<lambda>s. item_slot s = k) ts'"
  shows "parse_split (first # ts) = parse_split (first # ts') \<and>
         parse_dbic_protocol_name ''bids_func-pace_ses-1_task-boo_acq-bu_bids-please_run-2'' =
           Inr \<lparr>seqtype = Some ''func'', seqtype_label = Some ''pace'', session = Some ''1'',
                run = Some ''2'', task = Some ''boo'', acq = Some ''bu'',
                bids = Some ''bids-please''\<rparr> \<and>
         parse_dbic_protocol_name ''bids_func-pace_ses-1_run-2_task-boo_acq-bu_bids-please'' =
           Inr \<lparr>seqtype = Some ''func'', seqtype_label = Some ''pace'', session = Some ''1'',
                run = Some ''2'', task = Some ''boo'', acq = Some ''bu'',
                bids = Some ''bids-please''\<rparr> \<and>
         parse_dbic_protocol_name ''func-pace_ses-1_task-boo_acq-bu_bids-please_run-2'' =
           Inr \<lparr>seqtype = Some ''func'', seqtype_label = Some ''pace'', session = Some ''1'',
                run = Some ''2'', task = Some ''boo'', acq = Some ''bu'',
                bids = Some ''bids-please''\<rparr>"
proof -
  have "parse_split (first # ts) = parse_split (first # ts')"
  proof -
    obtain a b where "split2 first = (a, b)" by (cases "split2 first")
    then show ?thesis by (simp add: parse_split_def parse_items_reorder [OF assms])
  qed
  moreover have "parse_dbic_protocol_name ''bids_func-pace_ses-1_task-boo_acq-bu_bids-please_run-2'' =
           Inr \<lparr>seqtype = Some ''func'', seqtype_label = Some ''pace'', session = Some ''1'',
                run = Some ''2'', task = Some ''boo'', acq = Some ''bu'',
                bids = Some ''bids-please''\<rparr>"
    by (simp add: parse_eval)
  moreover have "parse_dbic_protocol_name ''bids_func-pace_ses-1_run-2_task-boo_acq-bu_bids-please'' =
           Inr \<lparr>seqtype = Some ''func'', seqtype_label = Some ''pace'', session = Some ''1'',
                run = Some ''2'', task = Some ''boo'', acq = Some ''bu'',
                bids = Some ''bids-please''\<rparr>"
    by (simp add: parse_eval)
  moreover have "parse_dbic_protocol_name ''func-pace_ses-1_task-boo_acq-bu_bids-please_run-2'' =
           Inr \<lparr>seqtype = Some ''func'', seqtype_label = Some ''pace'', session = Some ''1'',
                run = Some ''2'', task = Some ''boo'', acq = Some ''bu'',
                bids = Some ''bids-please''\<rparr>"
    by (simp add: parse_eval)
  ultimately show ?thesis by simp
qed

lemmas slot_eval = item_slot_def item_key_def split2_def

theorem parse_reorder_amended_witness:
  "(\<forall>k. filter (\<lambda>s. item_slot s = k) [''ses-1'', ''task-boo'', ''acq-bu'', ''bids-please'', ''run-2'']
      = filter (\<lambda>s. item_slot s = k) [''ses-1'', ''run-2'', ''task-boo'', ''acq-bu'', ''bids-please'']) \<and>
   parse_split [''func-pace'', ''ses-1'', ''task-boo'', ''acq-bu'', ''bids-please'', ''run-2''] =
   parse_split [''func-pace'', ''ses-1'', ''run-2'', ''task-boo'', ''acq-bu'', ''bids-please'']"
proof -
  have h: "\<forall>k. filter (\<lambda>s. item_slot s = k) [''ses-1'', ''task-boo'', ''acq-bu'', ''bids-please'', ''run-2'']
      = filter (\<lambda>s. item_slot s = k) [''ses-1'', ''run-2'', ''task-boo'', ''acq-bu'', ''bids-please'']"
    by (auto simp: slot_eval)
  from parse_reorder_amended [OF h, of "''func-pace''"] h show ?thesis by simp
qed

section \<open>Properties of the sequence classifier\<close>

lemmas step_eval = infotodict_step_def tune_protocol_name_def default_seqtype_label_def
  run_transition_def render_run_label_def make_suffix_def create_key_def truthy_def
  filter_bool_def a_series_def initial_state_def isdigit_def is_digit_def py_int_def
  digit_val_def fmt_0d_def str_of_nat.simps replicate_numeral

text \<open>A series that is not derived and whose protocol name parses to the empty dict is
  recorded as unrecognized and gets no key, when its image data type does not start with
  \<^verbatim>\<open>MIP\<close>.\<close>

lemma infotodict_step_unrecognized:
  assumes "\<not> is_derived s" and "3 \<le> length (image_type s)"
    and "parse_dbic_protocol_name (tune_protocol_name (protocol_name s)) = Inr empty_regd"
    and "\<not> startswith (image_type s ! 2) ''MIP''"
  shows "infotodict_step md5sum s st =
           Inr (st\<lparr>image_data_type := Some (image_type s ! 2),
                   skipped_unknown := skipped_unknown st @ [series_id s]\<rparr>)"
  using assms by (simp add: infotodict_step_def Let_def)

text \<open>
  Claim C4 fails on the code for the image data types of angiography.  The series below is
  not derived, its protocol name \<^verbatim>\<open>TOF_3D_multi-slab\<close> parses to the empty dict and its image
  data type is \<^verbatim>\<open>MIP_SAG\<close>: line 234 writes \<^verbatim>\<open>acq\<close> into the dict, which is then not empty, and
  \<^verbatim>\<open>regd.pop('seqtype')\<close> raises \<^verbatim>\<open>KeyError\<close>.  The series is not recorded as unrecognized, and
  the classification of the batch ends there.
\<close>

theorem infotodict_unrecognized_MIP_raises:
  "parse_dbic_protocol_name ''TOF_3D_multi-slab'' = Inr empty_regd \<and>
   infotodict_step md5sum (a_series ''7-TOF_3D_multi-slab'' ''TOF_3D_multi-slab'' ''MIP_SAG'') st
     = Inl KeyError \<and>
   infotodict_loop md5sum [a_series ''7-TOF_3D_multi-slab'' ''TOF_3D_multi-slab'' ''MIP_SAG'']
     initial_state = Inl KeyError"
  by (simp add: step_eval parse_eval)

theorem infotodict_unrecognized_MIP_raises_witness:
  "infotodict_step (digest_to ''0'')
     (a_series ''7-TOF_3D_multi-slab'' ''TOF_3D_multi-slab'' ''MIP_SAG'')
     (initial_state\<lparr>skipped_unknown := [''1-localizer'']\<rparr>) = Inl KeyError"
  using infotodict_unrecognized_MIP_raises
    [of "digest_to ''0''" "initial_state\<lparr>skipped_unknown := [''1-localizer'']\<rparr>"]
  by simp

lemma parse_items_seqtype:
  assumes "parse_items ts (r, l) = Inr (r', l')"
  shows "seqtype r' = seqtype r \<and> seqtype_label r' = seqtype_label r"
proof (cases "[] \<in> set ts")
  case True
  with assms show ?thesis by (simp add: parse_items_error)
next
  case False
  with assms show ?thesis by (auto simp: parse_items_slots)
qed

lemma parse_split_seqtype:
  assumes "parse_split ts = Inr r"
  shows "r = empty_regd \<or> (\<exists>t\<in>set seqtypes. seqtype r = Some t)"
proof (cases ts)
  case Nil
  with assms show ?thesis by (simp add: parse_split_def)
next
  case (Cons first rest)
  obtain a b where ab: "split2 first = (a, b)" by (cases "split2 first")
  show ?thesis
  proof (cases "a \<in> set seqtypes")
    case False
    with assms Cons ab show ?thesis by (simp add: parse_split_def)
  next
    case True
    let ?r0 = "empty_regd\<lparr>seqtype := Some a,
                 seqtype_label := (case b of None \<Rightarrow> None
                                   | Some l \<Rightarrow> if l = [] then None else Some l)\<rparr>"
    from assms Cons ab True obtain r' l' where
      pi: "parse_items rest (?r0, []) = Inr (r', l')"
      and r: "r = (if l' \<noteq> [] then r'\<lparr>bids := Some (str_join ''_'' l')\<rparr> else r')"
      by (auto simp: parse_split_def split: sum.splits)
    from parse_items_seqtype [OF pi] have "seqtype r' = Some a" by simp
    with r True show ?thesis by auto
  qed
qed

lemma parse_seqtype:
  "parse_dbic_protocol_name n = Inr r \<Longrightarrow>
   r = empty_regd \<or> (\<exists>t\<in>set seqtypes. seqtype r = Some t)"
  unfolding parse_dbic_protocol_name_def by (rule parse_split_seqtype)

lemma infotodict_loop_abort:
  assumes "s \<in> set batch" and "\<And>st. \<exists>e. infotodict_step md5sum s st = Inl e"
  shows "\<exists>e. infotodict_loop md5sum batch st = Inl e"
  using assms(1)
proof (induction batch arbitrary: st)
  case Nil
  then show ?case by simp
next
  case (Cons x xs)
  show ?case
  proof (cases "infotodict_step md5sum x st")
    case (Inl e)
    then show ?thesis by simp
  next
    case (Inr st')
    with assms(2) [of st] have "x \<noteq> s" by auto
    with Cons.prems have "s \<in> set xs" by simp
    with Cons.IH [of st'] Inr show ?thesis by simp
  qed
qed

text \<open>
  Claim C9.  The default label of an \<^verbatim>\<open>fmap\<close> series with no label of its own is looked up by
  the image data type, and the lookup has the two entries \<^verbatim>\<open>M\<close> and \<^verbatim>\<open>P\<close> only.  For a series
  that is not derived, whose protocol name parses to seqtype \<^verbatim>\<open>fmap\<close> with no label, and whose
  image data type is neither of them, the step raises \<^verbatim>\<open>KeyError\<close> from every state, and so
  the loop over any batch that holds such a series ends with an exception and produces no
  mapping.
\<close>

theorem infotodict_fmap_label_lookup:
  assumes "\<not> is_derived s" and "3 \<le> length (image_type s)"
    and "parse_dbic_protocol_name (tune_protocol_name (protocol_name s)) = Inr r"
    and "seqtype r = Some ''fmap''" and "seqtype_label r = None"
    and "image_type s ! 2 \<noteq> ''M''" and "image_type s ! 2 \<noteq> ''P''"
    and "s \<in> set batch"
  shows "default_seqtype_label ''fmap'' None pn ''M'' = Inr (Some ''magnitude'') \<and>
         default_seqtype_label ''fmap'' None pn ''P'' = Inr (Some ''phasediff'') \<and>
         default_seqtype_label ''fmap'' None pn (image_type s ! 2) = Inl KeyError \<and>
         infotodict_step md5sum s st = Inl KeyError \<and>
         (\<exists>e. infotodict_loop md5sum batch st0 = Inl e)"
proof -
  have step: "infotodict_step md5sum s st' = Inl KeyError" for st'
  proof -
    let ?idt = "image_type s ! 2"
    let ?r = "if startswith ?idt ''MIP''
              then r\<lparr>acq := Some ((case acq r of None \<Rightarrow> [] | Some a \<Rightarrow> a) @ sanitize_str ?idt)\<rparr>
              else r"
    from assms(4,5) have st: "seqtype ?r = Some ''fmap''" "seqtype_label ?r = None" by auto
    have ne: "?r \<noteq> empty_regd"
    proof
      assume "?r = empty_regd"
      then have "seqtype ?r = seqtype empty_regd" by (rule arg_cong)
      with st(1) show False by (simp add: empty_regd_def)
    qed
    from assms(6,7) have "default_seqtype_label ''fmap'' None
        (tune_protocol_name (protocol_name s)) ?idt = Inl KeyError"
      by (simp add: default_seqtype_label_def truthy_def)
    with assms(1,2,3) ne st show ?thesis
      by (simp add: infotodict_step_def Let_def)
  qed
  then have "\<exists>e. infotodict_loop md5sum batch st0 = Inl e"
    using infotodict_loop_abort [OF assms(8)] by blast
  with step [of st] assms(6,7) show ?thesis
    by (simp add: default_seqtype_label_def truthy_def)
qed

theorem infotodict_fmap_label_lookup_witness:
  "infotodict_step (digest_to ''0'') (a_series ''5-fmap'' ''fmap_acq-3mm'' ''PHASE'') initial_state
     = Inl KeyError \<and>
   (\<exists>e. infotodict_loop (digest_to ''0'')
      [a_series ''4-func'' ''func_task-rest'' ''FMRI'', a_series ''5-fmap'' ''fmap_acq-3mm'' ''PHASE'']
      initial_state = Inl e)"
proof -
  let ?s = "a_series ''5-fmap'' ''fmap_acq-3mm'' ''PHASE''"
  let ?r = "empty_regd\<lparr>seqtype := Some ''fmap'', acq := Some ''3mm''\<rparr>"
  have h1: "\<not> is_derived ?s" by (simp add: a_series_def)
  have h2: "3 \<le> length (image_type ?s)" by (simp add: a_series_def)
  have h3: "parse_dbic_protocol_name (tune_protocol_name (protocol_name ?s)) = Inr ?r"
    by (simp add: a_series_def tune_protocol_name_def parse_eval)
  have h4: "seqtype ?r = Some ''fmap''" by simp
  have h5: "seqtype_label ?r = None" by (simp add: empty_regd_def)
  have h6: "image_type ?s ! 2 \<noteq> ''M''" by (simp add: a_series_def)
  have h7: "image_type ?s ! 2 \<noteq> ''P''" by (simp add: a_series_def)
  have h8: "?s \<in> set [a_series ''4-func'' ''func_task-rest'' ''FMRI'', ?s]" by simp
  from infotodict_fmap_label_lookup [OF h1 h2 h3 h4 h5 h6 h7 h8,
      of _ "digest_to ''0''" initial_state initial_state]
  show ?thesis by blast
qed

text \<open>A series that is not derived, whose image data type is not one of angiography and
  whose protocol name has a run token: the step fails exactly when the run counter does,
  and otherwise leaves the new run and its label in the state.\<close>

lemma seqtypes_nonempty: "t \<in> set seqtypes \<Longrightarrow> t \<noteq> []"
  by (auto simp: seqtypes_def)

lemma default_seqtype_label_P:
  "\<exists>lbl. default_seqtype_label t l pn ''P'' = Inr lbl"
  by (simp add: default_seqtype_label_def Let_def)

lemma infotodict_step_run:
  assumes "\<not> is_derived s" and "3 \<le> length (image_type s)"
    and "\<not> startswith (image_type s ! 2) ''MIP''"
    and "parse_dbic_protocol_name (tune_protocol_name (protocol_name s)) = Inr r"
    and "run r = Some tok"
    and "default_seqtype_label (the (seqtype r)) (seqtype_label r)
           (tune_protocol_name (protocol_name s)) (image_type s ! 2) = Inr lbl"
  shows "case run_transition md5sum s tok (image_type s ! 2) (image_data_type st) (current_run st) of
           Inl e \<Rightarrow> infotodict_step md5sum s st = Inl e
         | Inr cur \<Rightarrow> (\<exists>st'. infotodict_step md5sum s st = Inr st' \<and> current_run st' = cur \<and>
                          run_label st' = Some (render_run_label cur))"
proof -
  have ne: "r \<noteq> empty_regd"
  proof
    assume "r = empty_regd"
    then have "run r = run empty_regd" by (rule arg_cong)
    with assms(5) show False by (simp add: empty_regd_def)
  qed
  with parse_seqtype [OF assms(4)] obtain t where t: "t \<in> set seqtypes" "seqtype r = Some t"
    by blast
  from t(1) have tne: "t \<noteq> []" by (rule seqtypes_nonempty)
  from assms(6) t(2) have lbl: "default_seqtype_label t (seqtype_label r)
           (tune_protocol_name (protocol_name s)) (image_type s ! 2) = Inr lbl" by simp
  show ?thesis
  proof (cases "run_transition md5sum s tok (image_type s ! 2) (image_data_type st) (current_run st)")
    case (Inl e)
    with assms(1-5) ne t(2) lbl show ?thesis
      by (simp add: infotodict_step_def Let_def)
  next
    case (Inr cur)
    with assms(1-5) ne t(2) lbl tne show ?thesis
      by (simp add: infotodict_step_def Let_def create_key_def)
  qed
qed

text \<open>
  Claim C3.  For a series that is not derived, of image data type \<^verbatim>\<open>P\<close> (phase), whose
  protocol name has the run token \<^verbatim>\<open>+\<close>: when the series before it among those that are not
  derived was of type \<^verbatim>\<open>M\<close> (magnitude), the step succeeds and the run is the one before (the
  pair shares a run); otherwise the step raises \<^verbatim>\<open>RuntimeError\<close>, unless the digest of the
  study description of the series is that of the legacy study, and then the step succeeds
  and the run is one more than before.
\<close>

theorem infotodict_phase_plus:
  assumes "\<not> is_derived s" and "3 \<le> length (image_type s)"
    and "image_type s ! 2 = ''P''"
    and "parse_dbic_protocol_name (tune_protocol_name (protocol_name s)) = Inr r"
    and "run r = Some ''+''"
  shows "(image_data_type st = Some ''M'' \<longrightarrow>
            (\<exists>st'. infotodict_step md5sum s st = Inr st' \<and> current_run st' = current_run st \<and>
                   run_label st' = Some (render_run_label (current_run st)))) \<and>
         (image_data_type st \<noteq> Some ''M'' \<and> md5sum (study_description s) \<noteq> legacy_study_hash \<longrightarrow>
            infotodict_step md5sum s st = Inl RuntimeError) \<and>
         (image_data_type st \<noteq> Some ''M'' \<and> md5sum (study_description s) = legacy_study_hash \<longrightarrow>
            (\<exists>st'. infotodict_step md5sum s st = Inr st' \<and> current_run st' = current_run st + 1 \<and>
                   run_label st' = Some (render_run_label (current_run st + 1))))"
proof -
  have mip: "\<not> startswith (image_type s ! 2) ''MIP''" by (simp add: assms(3))
  obtain lbl where lbl: "default_seqtype_label (the (seqtype r)) (seqtype_label r)
      (tune_protocol_name (protocol_name s)) (image_type s ! 2) = Inr lbl"
    unfolding assms(3) using default_seqtype_label_P by blast
  note step = infotodict_step_run [OF assms(1,2) mip assms(4,5) lbl, of md5sum st]
  have rt: "run_transition md5sum s ''+'' (image_type s ! 2) (image_data_type st) (current_run st) =
      (if image_data_type st \<noteq> Some ''M''
       then (if md5sum (study_description s) = legacy_study_hash
             then Inr (current_run st + 1) else Inl RuntimeError)
       else Inr (current_run st))"
    by (simp add: run_transition_def assms(3))
  from step show ?thesis unfolding rt by (auto split: if_splits)
qed

theorem infotodict_phase_plus_witness:
  "(\<exists>st'. infotodict_step (digest_to ''0'') (a_series ''6-fmap'' ''fmap_run+'' ''P'')
            (initial_state\<lparr>current_run := 1, image_data_type := Some ''M''\<rparr>) = Inr st' \<and>
          current_run st' = 1 \<and> run_label st' = Some ''run-01'') \<and>
   infotodict_step (digest_to ''0'') (a_series ''6-fmap'' ''fmap_run+'' ''P'') initial_state
     = Inl RuntimeError \<and>
   (\<exists>st'. infotodict_step (digest_to legacy_study_hash) (a_series ''6-fmap'' ''fmap_run+'' ''P'')
            initial_state = Inr st' \<and> current_run st' = 1 \<and> run_label st' = Some ''run-01'')"
proof -
  let ?s = "a_series ''6-fmap'' ''fmap_run+'' ''P''"
  let ?r = "empty_regd\<lparr>seqtype := Some ''fmap'', run := Some ''+''\<rparr>"
  have h1: "\<not> is_derived ?s" by (simp add: a_series_def)
  have h2: "3 \<le> length (image_type ?s)" by (simp add: a_series_def)
  have h3: "image_type ?s ! 2 = ''P''" by (simp add: a_series_def)
  have h4: "parse_dbic_protocol_name (tune_protocol_name (protocol_name ?s)) = Inr ?r"
    by (simp add: a_series_def tune_protocol_name_def parse_eval)
  have h5: "run ?r = Some ''+''" by simp
  have "render_run_label 1 = ''run-01''"
    by (simp add: render_run_label_def fmt_0d_def str_of_nat.simps replicate_numeral)
  then have l1: "render_run_label (Suc 0) = ''run-01''" by simp
  have sd: "study_description ?s = ''Haxby-Bob^study''" by (simp add: a_series_def)
  from infotodict_phase_plus [OF h1 h2 h3 h4 h5, of "initial_state\<lparr>current_run := 1, image_data_type := Some ''M''\<rparr>" "digest_to ''0''"]
    infotodict_phase_plus [OF h1 h2 h3 h4 h5, of initial_state "digest_to ''0''"]
    infotodict_phase_plus [OF h1 h2 h3 h4 h5, of initial_state "digest_to legacy_study_hash"]
  show ?thesis
    by (simp add: l1 sd digest_to_def legacy_study_hash_def initial_state_def)
qed


text \<open>The counter is unset when it is 0, its value before the loop.  A token of digits
  with the value 0 puts it back there, so that a following \<^verbatim>\<open>=\<close> makes it 1.\<close>

lemma run_reuse_after_zero:
  "run_transition md5sum s ''0'' idt p cur = Inr 0 \<and>
   run_transition md5sum s' ''='' idt' p' 0 = Inr 1"
  by (simp add: run_transition_def isdigit_def is_digit_def py_int_def digit_val_def)

lemma isdigit_not_sigil: "isdigit d \<Longrightarrow> d \<noteq> ''+'' \<and> d \<noteq> ''=''"
  by (auto simp: isdigit_def is_digit_def)

text \<open>
  Claim C5, as stated, fails.  The claim has \<^verbatim>\<open>=\<close> make the run 1 only when no run has been
  set yet.  In the batch below the first series sets the run to 0 with the token \<^verbatim>\<open>0\<close>
  (rendered \<^verbatim>\<open>run-00\<close>), and the token \<^verbatim>\<open>=\<close> of the second does not keep it: the run becomes 1
  (\<^verbatim>\<open>run-01\<close>), because the code tells an unset counter by its value 0.
\<close>

theorem run_reuse_after_explicit_zero:
  "infotodict_loop (digest_to ''0'')
     [a_series ''1-func'' ''func_run-0'' ''M'', a_series ''2-func'' ''func_run='' ''M'']
     initial_state =
   Inr \<lparr>info =
          [((''{bids_subject_session_dir}/func/{bids_subject_session_prefix}_run-00_bold'',
             [''nii.gz'', ''dicom''], None), [''1-func'']),
           ((''{bids_subject_session_dir}/func/{bids_subject_session_prefix}_run-01_bold'',
             [''nii.gz'', ''dicom''], None), [''2-func''])],
        skipped = [], skipped_unknown = [], current_run = 1, run_label = Some ''run-01'',
        image_data_type = Some ''M''\<rparr>"
  by (simp add: step_eval parse_eval)

text \<open>
  Claim C5, amended.  From the counter at 0, its value before any run token, the run tokens
  \<^verbatim>\<open>+\<close>, \<^verbatim>\<open>+\<close>, \<^verbatim>\<open>=\<close>, \<^verbatim>\<open>3\<close>, on series whose image data type is not \<^verbatim>\<open>P\<close> where the token is
  \<^verbatim>\<open>+\<close>, give the runs 1, 2, 2, 3, rendered as \<^verbatim>\<open>run-01\<close>, \<^verbatim>\<open>run-02\<close>, \<^verbatim>\<open>run-02\<close>, \<^verbatim>\<open>run-03\<close>.  The
  token \<^verbatim>\<open>=\<close> keeps the run when it is not 0 and makes it 1 when it is 0, which is so when
  no run has been set yet and also after a token of digits with the value 0; a string of
  digits sets the run to its value.  The example that follows the theorem runs the whole
  loop on four such series.
\<close>

theorem run_counter_scenario:
  assumes "idt1 \<noteq> ''P''" and "idt2 \<noteq> ''P''"
  shows "run_transition md5sum s1 ''+'' idt1 p1 0 = Inr 1 \<and> render_run_label 1 = ''run-01'' \<and>
         run_transition md5sum s2 ''+'' idt2 p2 1 = Inr 2 \<and> render_run_label 2 = ''run-02'' \<and>
         run_transition md5sum s3 ''='' idt3 p3 2 = Inr 2 \<and>
         run_transition md5sum s4 ''3'' idt4 p4 2 = Inr 3 \<and> render_run_label 3 = ''run-03'' \<and>
         (\<forall>cur. run_transition md5sum s ''='' idt p cur = Inr (if cur = 0 then 1 else cur)) \<and>
         (\<forall>d cur. isdigit d \<longrightarrow> run_transition md5sum s d idt p cur = Inr (py_int d))"
proof -
  have "run_transition md5sum s1 ''+'' idt1 p1 0 = Inr 1"
    using assms(1) by (simp add: run_transition_def)
  moreover have "run_transition md5sum s2 ''+'' idt2 p2 1 = Inr 2"
    using assms(2) by (simp add: run_transition_def)
  moreover have "run_transition md5sum s3 ''='' idt3 p3 2 = Inr 2"
    by (simp add: run_transition_def)
  moreover have "run_transition md5sum s4 ''3'' idt4 p4 2 = Inr 3"
    by (simp add: run_transition_def isdigit_def is_digit_def py_int_def digit_val_def)
  moreover have "render_run_label 1 = ''run-01'' \<and> render_run_label 2 = ''run-02'' \<and>
      render_run_label 3 = ''run-03''"
    by (simp add: render_run_label_def fmt_0d_def str_of_nat.simps replicate_numeral)
  moreover have "\<forall>cur. run_transition md5sum s ''='' idt p cur = Inr (if cur = 0 then 1 else cur)"
    by (simp add: run_transition_def)
  moreover have "\<forall>d cur. isdigit d \<longrightarrow> run_transition md5sum s d idt p cur = Inr (py_int d)"
    using isdigit_not_sigil by (simp add: run_transition_def)
  ultimately show ?thesis by simp
qed

theorem run_counter_scenario_witness:
  "infotodict_loop (digest_to ''0'')
     [a_series ''1-func'' ''func_run+'' ''M'', a_series ''2-func'' ''func_run+'' ''M'',
      a_series ''3-func'' ''func_run='' ''M'', a_series ''4-func'' ''func_run-3'' ''M'']
     initial_state =
   Inr \<lparr>info =
          [((''{bids_subject_session_dir}/func/{bids_subject_session_prefix}_run-01_bold'',
             [''nii.gz'', ''dicom''], None), [''1-func'']),
           ((''{bids_subject_session_dir}/func/{bids_subject_session_prefix}_run-02_bold'',
             [''nii.gz'', ''dicom''], None), [''2-func'', ''3-func'']),
           ((''{bids_subject_session_dir}/func/{bids_subject_session_prefix}_run-03_bold'',
             [''nii.gz'', ''dicom''], None), [''4-func''])],
        skipped = [], skipped_unknown = [], current_run = 3, run_label = Some ''run-03'',
        image_data_type = Some ''M''\<rparr>"
proof -
  have m: "''M'' \<noteq> ''P''" by simp
  note rc = run_counter_scenario [OF m m, of "digest_to ''0''"]
  have r1: "run_transition (digest_to ''0'') s ''+'' ''M'' p 0 = Inr 1" for s p using rc by blast
  have r2: "run_transition (digest_to ''0'') s ''+'' ''M'' p (Suc 0) = Inr 2" for s p
    using rc [of _ _ s p] by simp
  have r3: "run_transition (digest_to ''0'') s ''='' ''M'' p 2 = Inr 2" for s p using rc by blast
  have r4: "run_transition (digest_to ''0'') s ''3'' ''M'' p 2 = Inr 3" for s p using rc by blast
  have l: "render_run_label (Suc 0) = ''run-01''" "render_run_label 2 = ''run-02''"
    "render_run_label 3 = ''run-03''"
    using rc by simp_all
  show ?thesis
    by (simp add: infotodict_step_def tune_protocol_name_def default_seqtype_label_def
        make_suffix_def create_key_def truthy_def filter_bool_def a_series_def initial_state_def
        parse_eval r1 r2 r3 r4 l)
qed

section \<open>The fixup engine and the whole classifier\<close>

text \<open>The substitutions of \<^verbatim>\<open>test_fix_dbic_protocol\<close> give what the test expects.\<close>

lemma re_sub_examples:
  "re_sub (lit ''scout_run+'') ''scout'' ''02-anat-scout_run+_MPR_sag'' = ''02-anat-scout_MPR_sag'' \<and>
   re_sub (lit ''run-life'' @ [Digit]) ''run+_task-life'' ''11-func_run-life2_acq-2mm692''
     = ''11-func_run+_task-life_acq-2mm692'' \<and>
   re_sub (lit ''run-life'' @ [Digit]) ''run+_task-life'' ''nochangeplease'' = ''nochangeplease''"
  by (simp add: lit_def is_digit_def)

text \<open>For a study whose digest is not in \<^verbatim>\<open>protocols2fix\<close>, \<^verbatim>\<open>infotodict\<close> is the loop on the
  batch as it is given.\<close>

lemma infotodict_state_no_fixup:
  assumes "get_unique seqinfo study_description = Inr study_descr"
    and "md5sum study_descr \<notin> set (map fst protocols2fix)"
  shows "infotodict_state md5sum seqinfo = infotodict_loop md5sum seqinfo initial_state"
  using assms by (simp add: infotodict_state_def)

text \<open>The failure of claim C4 in \<^verbatim>\<open>infotodict\<close> as a whole: the unrecognized angiography
  series ends the classification of a batch whose first series is in order.\<close>

lemma infotodict_MIP_example:
  "infotodict (digest_to ''0'')
     [a_series ''6-func'' ''func_task-rest'' ''FMRI'',
      a_series ''7-TOF_3D_multi-slab'' ''TOF_3D_multi-slab'' ''MIP_SAG''] = Inl KeyError"
  by (simp add: infotodict_def infotodict_state_def get_unique_def protocols2fix_def
      digest_to_def step_eval parse_eval)

end
